theory Spec2Isabelle
  imports Main "HOL-Library.Char_ord" "HOL-Library.List_Lexorder" "HOL-Library.Sublist"
begin

section \<open>Python values used by the tools\<close>

text \<open>
  Strings are byte strings: ASCII text is written directly, the Chinese literals of the
  source are their UTF-8 bytes. Python compares strings by code point, and UTF-8 keeps
  that order, so \<open>(<)\<close> on \<open>string\<close> (lexicographic on bytes) is the order the
  source's \<open>dstr <= today\<close> and pandas' \<open>df[col] < date\<close> use. Character classes
  (\<open>isdigit\<close>, \<open>\d\<close>, \<open>strip\<close>, \<open>lower\<close>) are modelled on ASCII only.
\<close>

subsection \<open>Exceptions\<close>

text \<open>
  An exception is its class and the text \<open>str(e)\<close> that the handlers interpolate.
  \<open>NoDataFoundError\<close>, \<open>LoginError\<close> and \<open>DataSourceError\<close> are the classes of
  \<open>data_source_interface\<close>; the others are Python built-ins raised by the library
  calls the tools make. The class is the one the \<open>except\<close> clauses tell apart: every
  exception that is none of the named ones is an \<open>OtherException\<close>.
\<close>

datatype exn_class =
    NoDataFoundError | LoginError | DataSourceError
  | ValueError | KeyError | TypeError | IndexError | OverflowError | ReError | OtherException

datatype exn = Exn (exn_class: exn_class) (exn_str: string)

subsection \<open>Integers as text\<close>

definition digit_char :: "nat \<Rightarrow> char" where
  "digit_char n = char_of (48 + n)"

fun str_nat :: "nat \<Rightarrow> string" where
  "str_nat n = (if n < 10 then [digit_char n] else str_nat (n div 10) @ [digit_char (n mod 10)])"

declare str_nat.simps [simp del]

text \<open>\<open>str(i)\<close> and the f-string \<open>{i}\<close> for an int.\<close>

definition str_int :: "int \<Rightarrow> string" where
  "str_int i = (if i < 0 then CHR ''-'' # str_nat (nat (- i)) else str_nat (nat i))"

text \<open>The f-string \<open>{i:02d}\<close>: zero-padded to width two, sign included in the width.\<close>

definition fmt_02d :: "int \<Rightarrow> string" where
  "fmt_02d i =
     (if i < 0 then (if - i < 10 then CHR ''-'' # str_nat (nat (- i)) else str_int i)
      else if i < 10 then CHR ''0'' # str_nat (nat i) else str_nat (nat i))"

subsection \<open>Dates (\<open>datetime\<close>, \<open>timedelta\<close>, \<open>calendar\<close>)\<close>

text \<open>
  Only the calendar date of a \<open>datetime\<close> is ever read by the tools (\<open>strftime\<close> with
  \<open>%Y-%m-%d\<close>, \<open>.year\<close>, \<open>.month\<close>, \<open>.day\<close>), so a \<open>datetime\<close> is its date. The clock
  \<open>datetime.now()\<close> is a parameter \<open>now\<close> of every function that reads it.
\<close>

record date =
  year :: int
  month :: int
  day :: int

definition is_leap :: "int \<Rightarrow> bool" where
  "is_leap y = (y mod 4 = 0 \<and> (y mod 100 \<noteq> 0 \<or> y mod 400 = 0))"

text \<open>\<open>calendar.monthrange(year, month)[1]\<close> for a month in 1..12.\<close>

definition get_month_end_day :: "int \<Rightarrow> int \<Rightarrow> int" where
  "get_month_end_day y m =
     (if m = 2 then (if is_leap y then 29 else 28)
      else if m = 4 \<or> m = 6 \<or> m = 9 \<or> m = 11 then 30 else 31)"

definition valid_date :: "date \<Rightarrow> bool" where
  "valid_date d =
     (1 \<le> year d \<and> year d \<le> 9999 \<and> 1 \<le> month d \<and> month d \<le> 12 \<and>
      1 \<le> day d \<and> day d \<le> get_month_end_day (year d) (month d))"

text \<open>The constructor \<open>datetime(y, m, d)\<close>: a \<open>ValueError\<close> outside the calendar.\<close>

definition datetime :: "int \<Rightarrow> int \<Rightarrow> int \<Rightarrow> exn + date" where
  "datetime y m d =
     (if y < 1 \<or> 9999 < y then
        Inl (Exn ValueError (''year '' @ str_int y @ '' is out of range''))
      else if m < 1 \<or> 12 < m then Inl (Exn ValueError ''month must be in 1..12'')
      else if d < 1 \<or> get_month_end_day y m < d then
        Inl (Exn ValueError ''day is out of range for month'')
      else Inr \<lparr>year = y, month = m, day = d\<rparr>)"

text \<open>
  \<open>strftime("%Y-%m-%d")\<close>. The C library prints \<open>%Y\<close> without padding, so the result has
  the ISO shape exactly for years from 1000 on.
\<close>

definition strftime :: "date \<Rightarrow> string" where
  "strftime d = str_int (year d) @ ''-'' @ fmt_02d (month d) @ ''-'' @ fmt_02d (day d)"

definition prev_day :: "date \<Rightarrow> date" where
  "prev_day d =
     (if 1 < day d then d\<lparr>day := day d - 1\<rparr>
      else if 1 < month d then
        d\<lparr>month := month d - 1, day := get_month_end_day (year d) (month d - 1)\<rparr>
      else \<lparr>year = year d - 1, month = 12, day = 31\<rparr>)"

definition next_day :: "date \<Rightarrow> date" where
  "next_day d =
     (if day d < get_month_end_day (year d) (month d) then d\<lparr>day := day d + 1\<rparr>
      else if month d < 12 then d\<lparr>month := month d + 1, day := 1\<rparr>
      else \<lparr>year = year d + 1, month = 1, day = 1\<rparr>)"

text \<open>
  \<open>d - timedelta(days=n)\<close> and \<open>d + timedelta(days=n)\<close> for a valid \<open>d\<close>: an
  \<open>OverflowError\<close> when the result leaves the years 1..9999.
\<close>

definition minus_days :: "date \<Rightarrow> nat \<Rightarrow> exn + date" where
  "minus_days d n =
     (let r = (prev_day ^^ n) d
      in if year r < 1 then Inl (Exn OverflowError ''date value out of range'') else Inr r)"

definition plus_days :: "date \<Rightarrow> nat \<Rightarrow> exn + date" where
  "plus_days d n =
     (let r = (next_day ^^ n) d
      in if 9999 < year r then Inl (Exn OverflowError ''date value out of range'') else Inr r)"

subsection \<open>String methods\<close>

text \<open>The single quote of the messages.\<close>

definition sq :: string where
  "sq = [CHR 0x27]"

definition is_digit :: "char \<Rightarrow> bool" where
  "is_digit c = (let n = (of_char c :: nat) in 48 \<le> n \<and> n \<le> 57)"

text \<open>\<open>s.isdigit()\<close>: false on the empty string.\<close>

definition py_isdigit :: "string \<Rightarrow> bool" where
  "py_isdigit s = (s \<noteq> [] \<and> list_all is_digit s)"

text \<open>The ASCII characters \<open>str.strip()\<close> removes: 0x09..0x0D, 0x1C..0x1F and the space.\<close>

definition py_isspace :: "char \<Rightarrow> bool" where
  "py_isspace c =
     (let n = (of_char c :: nat) in (9 \<le> n \<and> n \<le> 13) \<or> (28 \<le> n \<and> n \<le> 32))"

definition py_strip :: "string \<Rightarrow> string" where
  "py_strip s = rev (dropWhile py_isspace (rev (dropWhile py_isspace s)))"

definition lower_char :: "char \<Rightarrow> char" where
  "lower_char c = (let n = (of_char c :: nat) in if 65 \<le> n \<and> n \<le> 90 then char_of (n + 32) else c)"

definition py_lower :: "string \<Rightarrow> string" where
  "py_lower s = map lower_char s"

text \<open>\<open>s.split(',')\<close>: always at least one piece, empty pieces kept.\<close>

fun split_comma :: "string \<Rightarrow> string list" where
  "split_comma [] = [[]]"
| "split_comma (c # cs) =
     (if c = CHR '','' then [] # split_comma cs
      else (case split_comma cs of p # ps \<Rightarrow> (c # p) # ps | [] \<Rightarrow> [[c]]))"

text \<open>\<open>x or default\<close> for an \<open>Optional[str]\<close>: \<open>None\<close> and the empty string are falsy.\<close>

definition str_or :: "string option \<Rightarrow> string \<Rightarrow> string" where
  "str_or x d = (case x of None \<Rightarrow> d | Some s \<Rightarrow> if s = [] then d else s)"

text \<open>A keyword argument with a default: \<open>None\<close> is "not passed by the caller".\<close>

definition arg_or :: "'a option \<Rightarrow> 'a \<Rightarrow> 'a" where
  "arg_or x d = (case x of None \<Rightarrow> d | Some v \<Rightarrow> v)"

subsection \<open>The regular expressions of \<open>normalize_stock_code\<close>\<close>

text \<open>
  A piece of a pattern maps the text to every way of matching a prefix of it, in the
  backtracking engine's order of preference; each way is the captured text (for a
  group) and the text left over. \<open>re.fullmatch\<close> takes the first way through the whole
  pattern that leaves nothing over.
\<close>

text \<open>The group \<open>(sh|sz)\<close>, with or without the flag \<open>i\<close>.\<close>

definition re_sh_sz :: "bool \<Rightarrow> string \<Rightarrow> (string \<times> string) list" where
  "re_sh_sz icase s =
     [(take 2 s, drop 2 s). alt \<leftarrow> [''sh'', ''sz''],
        (if icase then py_lower (take 2 s) else take 2 s) = alt]"

text \<open>The greedy optional dot \<open>[\.]?\<close>.\<close>

definition re_opt_dot :: "string \<Rightarrow> string list" where
  "re_opt_dot s = (case s of [] \<Rightarrow> [s] | c # r \<Rightarrow> if c = CHR ''.'' then [r, s] else [s])"

text \<open>The group \<open>(\d{6})\<close>.\<close>

definition re_digits6 :: "string \<Rightarrow> (string \<times> string) list" where
  "re_digits6 s =
     (if 6 \<le> length s \<and> list_all is_digit (take 6 s) then [(take 6 s, drop 6 s)] else [])"

definition first_match :: "'a list \<Rightarrow> 'a option" where
  "first_match ms = (case ms of [] \<Rightarrow> None | m # _ \<Rightarrow> Some m)"

text \<open>\<open>re.fullmatch(r"(?i)(sh|sz)[\.]?(\d{6})", raw)\<close>: groups 1 and 2.\<close>

definition fullmatch_ex_num :: "string \<Rightarrow> (string \<times> string) option" where
  "fullmatch_ex_num raw =
     first_match [(ex, num). (ex, r1) \<leftarrow> re_sh_sz True raw, r2 \<leftarrow> re_opt_dot r1,
                    (num, r3) \<leftarrow> re_digits6 r2, r3 = []]"

text \<open>
  \<open>re.fullmatch(r"(\d{6})[\.]?(?i)(sh|sz)", raw)\<close>. The global flag \<open>(?i)\<close> stands in the
  middle of the pattern, at offset 12. CPython 3.6 to 3.10 compiles such a pattern with a
  \<open>DeprecationWarning\<close> and applies the flag to the whole of it; from CPython 3.11 on,
  \<open>re\<close> refuses to compile it and raises \<open>re.error\<close>. The interpreter is the parameter
  \<open>re_dialect\<close>.
\<close>

datatype re_dialect = Flags_anywhere | Flags_at_start_only

definition fullmatch_num_ex :: "re_dialect \<Rightarrow> string \<Rightarrow> exn + (string \<times> string) option" where
  "fullmatch_num_ex dialect raw =
     (case dialect of
        Flags_at_start_only \<Rightarrow>
          Inl (Exn ReError ''global flags not at the start of the expression at position 12'')
      | Flags_anywhere \<Rightarrow>
          Inr (first_match [(num, ex). (num, r1) \<leftarrow> re_digits6 raw, r2 \<leftarrow> re_opt_dot r1,
                              (ex, r3) \<leftarrow> re_sh_sz True r2, r3 = []]))"

text \<open>\<open>re.fullmatch(r"(\d{6})", raw)\<close>: group 1.\<close>

definition fullmatch_num :: "string \<Rightarrow> string option" where
  "fullmatch_num raw = first_match [num. (num, r) \<leftarrow> re_digits6 raw, r = []]"

subsection \<open>\<open>datetime.strptime(s, "%Y-%m-%d")\<close>\<close>

text \<open>
  \<open>strptime\<close> matches the text against the regular expression of the format,
  \<open>(\d\d\d\d)-(1[0-2]|0[1-9]|[1-9])-(3[01]|[12]\d|0[1-9]|[1-9]| [1-9])\<close>, from its start;
  text left over after the match, a text that does not match and a day the month does not
  have are each a \<open>ValueError\<close>. The pieces are matchers as above, the alternatives of a
  group in their order.
\<close>

definition re_chars :: "(char \<Rightarrow> bool) list \<Rightarrow> string \<Rightarrow> (string \<times> string) list" where
  "re_chars classes s =
     (let n = length classes in
      if n \<le> length s \<and> list_all (\<lambda>(p, c). p c) (zip classes (take n s))
      then [(take n s, drop n s)] else [])"

definition one_of :: "string \<Rightarrow> char \<Rightarrow> bool" where
  "one_of cs c = (c \<in> set cs)"

definition re_year :: "string \<Rightarrow> (string \<times> string) list" where
  "re_year s = re_chars [is_digit, is_digit, is_digit, is_digit] s"

definition re_month :: "string \<Rightarrow> (string \<times> string) list" where
  "re_month s =
     re_chars [one_of ''1'', one_of ''012''] s @
     re_chars [one_of ''0'', one_of ''123456789''] s @
     re_chars [one_of ''123456789''] s"

definition re_day :: "string \<Rightarrow> (string \<times> string) list" where
  "re_day s =
     re_chars [one_of ''3'', one_of ''01''] s @
     re_chars [one_of ''12'', is_digit] s @
     re_chars [one_of ''0'', one_of ''123456789''] s @
     re_chars [one_of ''123456789''] s @
     re_chars [one_of '' '', one_of ''123456789''] s"

definition re_dash :: "string \<Rightarrow> string list" where
  "re_dash s = (case s of [] \<Rightarrow> [] | c # r \<Rightarrow> if c = CHR ''-'' then [r] else [])"

text \<open>\<open>int(s)\<close> for a text of digits with spaces around it.\<close>

definition py_int :: "string \<Rightarrow> int" where
  "py_int s = foldl (\<lambda>a c. 10 * a + (int (of_char c) - 48)) 0 (py_strip s)"

definition strptime :: "string \<Rightarrow> exn + date" where
  "strptime s =
     (case first_match
             [(y, m, d, r). (y, r1) \<leftarrow> re_year s, r2 \<leftarrow> re_dash r1, (m, r3) \<leftarrow> re_month r2,
                r4 \<leftarrow> re_dash r3, (d, r) \<leftarrow> re_day r4] of
        None \<Rightarrow>
          Inl (Exn ValueError (''time data '' @ sq @ s @ sq @ '' does not match format '' @
                 sq @ ''%Y-%m-%d'' @ sq))
      | Some (y, m, d, r) \<Rightarrow>
          if r \<noteq> [] then Inl (Exn ValueError (''unconverted data remains: '' @ r))
          else datetime (py_int y) (py_int m) (py_int d))"

subsection \<open>Data frames\<close>

text \<open>
  A \<open>DataFrame\<close> is its column names and its rows, every cell as the text the tools
  compare it with and print. The column names of a frame are distinct, and every row has one cell for
  each column (\<open>wf_df\<close>), as in every frame pandas builds from a provider's table.
\<close>

record dataframe =
  columns :: "string list"
  rows :: "string list list"

definition wf_df :: "dataframe \<Rightarrow> bool" where
  "wf_df df =
     (distinct (columns df) \<and> list_all (\<lambda>r. length r = length (columns df)) (rows df))"

text \<open>\<open>df.empty\<close>: no rows or no columns.\<close>

definition df_empty :: "dataframe \<Rightarrow> bool" where
  "df_empty df = (columns df = [] \<or> rows df = [])"

fun index_of :: "'a \<Rightarrow> 'a list \<Rightarrow> nat option" where
  "index_of x [] = None"
| "index_of x (y # ys) =
     (if x = y then Some 0 else (case index_of x ys of None \<Rightarrow> None | Some i \<Rightarrow> Some (Suc i)))"

text \<open>The position of the column \<open>df[name]\<close> reads; a \<open>KeyError\<close> for a missing name.\<close>

definition df_column :: "dataframe \<Rightarrow> string \<Rightarrow> exn + nat" where
  "df_column df name =
     (case index_of name (columns df) of
        None \<Rightarrow> Inl (Exn KeyError (sq @ name @ sq))
      | Some i \<Rightarrow> Inr i)"

text \<open>Selection by a boolean mask, \<open>df[mask]\<close>, the mask given as a test on the row.\<close>

definition df_where :: "(string list \<Rightarrow> bool) \<Rightarrow> dataframe \<Rightarrow> dataframe" where
  "df_where p df = df\<lparr>rows := filter p (rows df)\<rparr>"

text \<open>\<open>df.sort_values(by=col)\<close>, the column given by its position.\<close>

definition sort_values :: "nat \<Rightarrow> dataframe \<Rightarrow> dataframe" where
  "sort_values i df = df\<lparr>rows := sort_key (\<lambda>r. r ! i) (rows df)\<rparr>"

subsection \<open>Effects\<close>

text \<open>
  A call to a data provider may raise, and it acts on the world outside the program (the
  provider's session, the network). The world is a value \<open>w\<close> of any type \<open>'w\<close>, passed
  to every provider call and returned by it; a tool that returns the world it was given
  has called no provider. Logging is not modelled.
\<close>

type_synonym ('a, 'w) io = "'w \<Rightarrow> (exn + 'a) \<times> 'w"

text \<open>A \<open>try\<close> whose \<open>except\<close> clauses all return a string: \<open>h\<close> is the clauses.\<close>

definition try_except :: "(exn + string) \<times> 'w \<Rightarrow> (exn \<Rightarrow> string) \<Rightarrow> string \<times> 'w" where
  "try_except r h = (case r of (Inl e, w) \<Rightarrow> (h e, w) | (Inr s, w) \<Rightarrow> (s, w))"

subsection \<open>The renderer\<close>

text \<open>
  \<open>format_table_output(df, format=, max_rows=, meta=)\<close> of
  \<open>src/formatting/markdown_formatter.py\<close> is a parameter \<open>fto\<close> of every tool that calls
  it: a function of the frame (or \<open>None\<close>), the format token, the row cap and the metadata,
  which returns the text or raises.
\<close>

datatype meta_val = MStr string | MInt int | MNone | MDict "(string \<times> string) list"

type_synonym meta = "(string \<times> meta_val) list"

type_synonym renderer = "dataframe option \<Rightarrow> string \<Rightarrow> int \<Rightarrow> meta \<Rightarrow> exn + string"

definition opt_str :: "string option \<Rightarrow> meta_val" where
  "opt_str x = (case x of None \<Rightarrow> MNone | Some s \<Rightarrow> MStr s)"

section \<open>\<open>src/tools/base.py\<close>\<close>

text \<open>
  The \<open>except\<close> clauses that close \<open>call_financial_data_tool\<close>, \<open>call_macro_data_tool\<close>,
  \<open>call_index_constituent_tool\<close>, \<open>get_trade_dates\<close> and \<open>get_all_stock\<close>, in their order.
\<close>

definition error_string :: "exn \<Rightarrow> string" where
  "error_string e =
     (case exn_class e of
        NoDataFoundError \<Rightarrow> ''Error: '' @ exn_str e
      | LoginError \<Rightarrow> ''Error: Could not connect to data source. '' @ exn_str e
      | DataSourceError \<Rightarrow> ''Error: An error occurred while fetching data. '' @ exn_str e
      | ValueError \<Rightarrow> ''Error: Invalid input parameter. '' @ exn_str e
      | _ \<Rightarrow> ''Error: An unexpected error occurred: '' @ exn_str e)"

text \<open>The single clause \<open>except Exception as e\<close> of the other tools.\<close>

definition unexpected_error_string :: "exn \<Rightarrow> string" where
  "unexpected_error_string e = ''Error: An unexpected error occurred: '' @ exn_str e"

definition call_financial_data_tool_try ::
  "renderer \<Rightarrow> (string \<Rightarrow> string \<Rightarrow> int \<Rightarrow> (dataframe option, 'w) io) \<Rightarrow> string \<Rightarrow>
   string \<Rightarrow> string \<Rightarrow> int \<Rightarrow> int \<Rightarrow> string \<Rightarrow> 'w \<Rightarrow> (exn + string) \<times> 'w" where
  "call_financial_data_tool_try fto data_source_method data_type_name code year' quarter
     limit format w =
     (if \<not> py_isdigit year' \<or> length year' \<noteq> 4 then
        (Inr (''Error: Invalid year '' @ sq @ year' @ sq @ ''. Please provide a 4-digit year.''), w)
      else if \<not> (1 \<le> quarter \<and> quarter \<le> 4) then
        (Inr (''Error: Invalid quarter '' @ sq @ str_int quarter @ sq @
              ''. Must be between 1 and 4.''), w)
      else
        (case data_source_method code year' quarter w of
           (Inl e, w') \<Rightarrow> (Inl e, w')
         | (Inr df, w') \<Rightarrow>
             (fto df format limit
                [(''code'', MStr code), (''year'', MStr year'), (''quarter'', MInt quarter),
                 (''dataset'', MStr data_type_name)], w')))"

definition call_financial_data_tool ::
  "renderer \<Rightarrow> string \<Rightarrow> (string \<Rightarrow> string \<Rightarrow> int \<Rightarrow> (dataframe option, 'w) io) \<Rightarrow> string \<Rightarrow>
   string \<Rightarrow> string \<Rightarrow> int \<Rightarrow> int option \<Rightarrow> string option \<Rightarrow> 'w \<Rightarrow> string \<times> 'w" where
  "call_financial_data_tool fto tool_name data_source_method data_type_name code year' quarter
     limit format w =
     try_except
       (call_financial_data_tool_try fto data_source_method data_type_name code year' quarter
          (arg_or limit 250) (arg_or format ''markdown'') w)
       error_string"

definition call_macro_data_tool ::
  "renderer \<Rightarrow> string \<Rightarrow>
   (string option \<Rightarrow> string option \<Rightarrow> (string \<times> string) list \<Rightarrow> (dataframe option, 'w) io) \<Rightarrow>
   string \<Rightarrow> string option \<Rightarrow> string option \<Rightarrow> int option \<Rightarrow> string option \<Rightarrow>
   (string \<times> string) list \<Rightarrow> 'w \<Rightarrow> string \<times> 'w" where
  "call_macro_data_tool fto tool_name data_source_method data_type_name start_date end_date
     limit format kwargs w =
     try_except
       (case data_source_method start_date end_date kwargs w of
          (Inl e, w') \<Rightarrow> (Inl e, w')
        | (Inr df, w') \<Rightarrow>
            (fto df (arg_or format ''markdown'') (arg_or limit 250)
               ([(''dataset'', MStr data_type_name), (''start_date'', opt_str start_date),
                 (''end_date'', opt_str end_date)] @
                (if kwargs \<noteq> [] then [(''extra'', MDict kwargs)] else [])), w'))
       error_string"

definition call_index_constituent_tool ::
  "renderer \<Rightarrow> string \<Rightarrow> (string option \<Rightarrow> (dataframe option, 'w) io) \<Rightarrow> string \<Rightarrow>
   string option \<Rightarrow> int option \<Rightarrow> string option \<Rightarrow> 'w \<Rightarrow> string \<times> 'w" where
  "call_index_constituent_tool fto tool_name data_source_method index_name date limit format w =
     try_except
       (case data_source_method date w of
          (Inl e, w') \<Rightarrow> (Inl e, w')
        | (Inr df, w') \<Rightarrow>
            (fto df (arg_or format ''markdown'') (arg_or limit 250)
               [(''index'', MStr index_name), (''as_of'', MStr (str_or date ''latest''))], w'))
       error_string"

section \<open>The data source the tools are registered with\<close>

text \<open>The methods of \<open>FinancialDataSource\<close> that the tools under \<open>src/tools\<close> call.\<close>

record 'w financial_data_source =
  ds_get_trade_dates :: "string option \<Rightarrow> string option \<Rightarrow> (dataframe option, 'w) io"
  ds_get_all_stock :: "string option \<Rightarrow> (dataframe option, 'w) io"
  ds_get_stock_industry :: "string option \<Rightarrow> string option \<Rightarrow> (dataframe option, 'w) io"
  ds_get_sz50_stocks :: "string option \<Rightarrow> (dataframe option, 'w) io"
  ds_get_hs300_stocks :: "string option \<Rightarrow> (dataframe option, 'w) io"
  ds_get_zz500_stocks :: "string option \<Rightarrow> (dataframe option, 'w) io"

definition no_data_text :: string where
  "no_data_text = ''(No data available to display)''"

section \<open>\<open>src/tools/market_overview.py\<close>\<close>

definition get_trade_dates ::
  "renderer \<Rightarrow> 'w financial_data_source \<Rightarrow> string option \<Rightarrow> string option \<Rightarrow> int option \<Rightarrow>
   string option \<Rightarrow> 'w \<Rightarrow> string \<times> 'w" where
  "get_trade_dates fto active_data_source start_date end_date limit format w =
     try_except
       (case ds_get_trade_dates active_data_source start_date end_date w of
          (Inl e, w') \<Rightarrow> (Inl e, w')
        | (Inr df, w') \<Rightarrow>
            (fto df (arg_or format ''markdown'') (arg_or limit 250)
               [(''start_date'', MStr (str_or start_date ''default'')),
                (''end_date'', MStr (str_or end_date ''default''))], w'))
       error_string"

definition get_all_stock ::
  "renderer \<Rightarrow> 'w financial_data_source \<Rightarrow> string option \<Rightarrow> int option \<Rightarrow> string option \<Rightarrow>
   'w \<Rightarrow> string \<times> 'w" where
  "get_all_stock fto active_data_source date limit format w =
     try_except
       (case ds_get_all_stock active_data_source date w of
          (Inl e, w') \<Rightarrow> (Inl e, w')
        | (Inr df, w') \<Rightarrow>
            (fto df (arg_or format ''markdown'') (arg_or limit 250)
               [(''as_of'', MStr (str_or date ''default''))], w'))
       error_string"

text \<open>
  \<open>Series.str.contains(kw, na=False)\<close> reads \<open>kw\<close> as a regular expression: compiling it
  raises or gives a test on the cell. It is the parameter \<open>str_contains\<close>.
\<close>

definition search_stocks ::
  "renderer \<Rightarrow> (string \<Rightarrow> exn + (string \<Rightarrow> bool)) \<Rightarrow> 'w financial_data_source \<Rightarrow> string \<Rightarrow>
   string option \<Rightarrow> int option \<Rightarrow> string option \<Rightarrow> 'w \<Rightarrow> string \<times> 'w" where
  "search_stocks fto str_contains active_data_source keyword date limit format w =
     try_except
       (if keyword = [] \<or> py_strip keyword = [] then
          (Inr (''Error: '' @ sq @ ''keyword'' @ sq @ '' is required (substring of code).''), w)
        else
          (case ds_get_all_stock active_data_source date w of
             (Inl e, w') \<Rightarrow> (Inl e, w')
           | (Inr None, w') \<Rightarrow> (Inr no_data_text, w')
           | (Inr (Some df), w') \<Rightarrow>
               (if df_empty df then (Inr no_data_text, w')
                else
                  (case df_column df ''code'' of
                     Inl e \<Rightarrow> (Inl e, w')
                   | Inr i \<Rightarrow>
                       (case str_contains (py_lower (py_strip keyword)) of
                          Inl e \<Rightarrow> (Inl e, w')
                        | Inr hit \<Rightarrow>
                            (fto (Some (df_where (\<lambda>r. hit (py_lower (r ! i))) df))
                               (arg_or format ''markdown'') (arg_or limit 50)
                               [(''keyword'', MStr keyword),
                                (''as_of'', MStr (str_or date ''current''))], w'))))))
       unexpected_error_string"

definition get_suspensions ::
  "renderer \<Rightarrow> 'w financial_data_source \<Rightarrow> string option \<Rightarrow> int option \<Rightarrow> string option \<Rightarrow>
   'w \<Rightarrow> string \<times> 'w" where
  "get_suspensions fto active_data_source date limit format w =
     try_except
       (case ds_get_all_stock active_data_source date w of
          (Inl e, w') \<Rightarrow> (Inl e, w')
        | (Inr None, w') \<Rightarrow> (Inr no_data_text, w')
        | (Inr (Some df), w') \<Rightarrow>
            (if df_empty df then (Inr no_data_text, w')
             else
               (case index_of ''tradeStatus'' (columns df) of
                  None \<Rightarrow>
                    (Inr (''Error: '' @ sq @ ''tradeStatus'' @ sq @
                          '' column not present in data source response.''), w')
                | Some i \<Rightarrow>
                    (let suspended = df_where (\<lambda>r. r ! i = ''0'') df
                     in (fto (Some suspended) (arg_or format ''markdown'') (arg_or limit 250)
                           [(''as_of'', MStr (str_or date ''current'')),
                            (''total_suspended'', MInt (int (length (rows suspended))))], w')))))
       unexpected_error_string"

section \<open>\<open>src/tools/indices.py\<close>\<close>

definition get_stock_industry ::
  "renderer \<Rightarrow> 'w financial_data_source \<Rightarrow> string option \<Rightarrow> string option \<Rightarrow> int option \<Rightarrow>
   string option \<Rightarrow> 'w \<Rightarrow> string \<times> 'w" where
  "get_stock_industry fto active_data_source code date limit format w =
     try_except
       (case ds_get_stock_industry active_data_source code date w of
          (Inl e, w') \<Rightarrow> (Inl e, w')
        | (Inr df, w') \<Rightarrow>
            (fto df (arg_or format ''markdown'') (arg_or limit 250)
               [(''code'', MStr (str_or code ''all'')),
                (''as_of'', MStr (str_or date ''latest''))], w'))
       unexpected_error_string"

definition get_sz50_stocks ::
  "renderer \<Rightarrow> 'w financial_data_source \<Rightarrow> string option \<Rightarrow> int option \<Rightarrow> string option \<Rightarrow>
   'w \<Rightarrow> string \<times> 'w" where
  "get_sz50_stocks fto active_data_source date limit format w =
     call_index_constituent_tool fto ''get_sz50_stocks'' (ds_get_sz50_stocks active_data_source)
       ''SZSE 50'' date (Some (arg_or limit 250)) (Some (arg_or format ''markdown'')) w"

definition get_hs300_stocks ::
  "renderer \<Rightarrow> 'w financial_data_source \<Rightarrow> string option \<Rightarrow> int option \<Rightarrow> string option \<Rightarrow>
   'w \<Rightarrow> string \<times> 'w" where
  "get_hs300_stocks fto active_data_source date limit format w =
     call_index_constituent_tool fto ''get_hs300_stocks'' (ds_get_hs300_stocks active_data_source)
       ''CSI 300'' date (Some (arg_or limit 250)) (Some (arg_or format ''markdown'')) w"

definition get_zz500_stocks ::
  "renderer \<Rightarrow> 'w financial_data_source \<Rightarrow> string option \<Rightarrow> int option \<Rightarrow> string option \<Rightarrow>
   'w \<Rightarrow> string \<times> 'w" where
  "get_zz500_stocks fto active_data_source date limit format w =
     call_index_constituent_tool fto ''get_zz500_stocks'' (ds_get_zz500_stocks active_data_source)
       ''CSI 500'' date (Some (arg_or limit 250)) (Some (arg_or format ''markdown'')) w"

definition get_index_constituents ::
  "renderer \<Rightarrow> 'w financial_data_source \<Rightarrow> string \<Rightarrow> string option \<Rightarrow> int option \<Rightarrow>
   string option \<Rightarrow> 'w \<Rightarrow> string \<times> 'w" where
  "get_index_constituents fto active_data_source index date limit format w =
     try_except
       (let key = py_lower (py_strip index) in
        if key \<notin> {''hs300'', ''sz50'', ''zz500''} then
          (Inr (''Error: Invalid index. Valid options are '' @ sq @ ''hs300'' @ sq @ '', '' @
                sq @ ''sz50'' @ sq @ '', '' @ sq @ ''zz500'' @ sq @ ''.''), w)
        else
          (case (if key = ''hs300'' then ds_get_hs300_stocks active_data_source date w
                 else if key = ''sz50'' then ds_get_sz50_stocks active_data_source date w
                 else ds_get_zz500_stocks active_data_source date w) of
             (Inl e, w') \<Rightarrow> (Inl e, w')
           | (Inr df, w') \<Rightarrow>
               (fto df (arg_or format ''markdown'') (arg_or limit 250)
                  [(''index'', MStr key), (''as_of'', MStr (str_or date ''latest''))], w')))
       unexpected_error_string"

definition get_industry_members ::
  "renderer \<Rightarrow> 'w financial_data_source \<Rightarrow> string \<Rightarrow> string option \<Rightarrow> int option \<Rightarrow>
   string option \<Rightarrow> 'w \<Rightarrow> string \<times> 'w" where
  "get_industry_members fto active_data_source industry date limit format w =
     try_except
       (if industry = [] \<or> py_strip industry = [] then
          (Inr (''Error: '' @ sq @ ''industry'' @ sq @
                '' is required. Call list_industries() to discover available values.''), w)
        else
          (case ds_get_stock_industry active_data_source None date w of
             (Inl e, w') \<Rightarrow> (Inl e, w')
           | (Inr None, w') \<Rightarrow> (Inr no_data_text, w')
           | (Inr (Some df), w') \<Rightarrow>
               (if df_empty df then (Inr no_data_text, w')
                else
                  (let col = (case index_of ''industry'' (columns df) of
                                Some i \<Rightarrow> i | None \<Rightarrow> length (columns df) - 1)
                   in (fto (Some (df_where (\<lambda>r. r ! col = industry) df))
                         (arg_or format ''markdown'') (arg_or limit 250)
                         [(''industry'', MStr industry),
                          (''as_of'', MStr (str_or date ''latest''))], w')))))
       unexpected_error_string"

section \<open>\<open>src/akshare_etf_data_source.py\<close>\<close>

text \<open>
  The three functions of the \<open>akshare\<close> module that \<open>AKShareETFDataSource\<close> calls:
  \<open>fund_etf_spot_em()\<close>, \<open>fund_etf_hist_em(symbol, period, start_date, end_date)\<close> and
  \<open>fund_etf_holdings_em(symbol)\<close>.
\<close>

record 'w akshare =
  fund_etf_spot_em :: "(dataframe, 'w) io"
  fund_etf_hist_em :: "string \<Rightarrow> string \<Rightarrow> string \<Rightarrow> string \<Rightarrow> (dataframe, 'w) io"
  fund_etf_holdings_em :: "string \<Rightarrow> (dataframe, 'w) io"

text \<open>The column U+4EE3 U+7801 (code).\<close>

definition daima :: string where
  "daima =
     [CHR 0xE4, CHR 0xBB, CHR 0xA3, CHR 0xE7, CHR 0xA0, CHR 0x81]"

text \<open>The column U+540D U+79F0 (name).\<close>

definition mingcheng :: string where
  "mingcheng =
     [CHR 0xE5, CHR 0x90, CHR 0x8D, CHR 0xE7, CHR 0xA7, CHR 0xB0]"

text \<open>The column U+6700 U+65B0 U+4EF7 (latest price).\<close>

definition zuixinjia :: string where
  "zuixinjia =
     [CHR 0xE6, CHR 0x9C, CHR 0x80, CHR 0xE6, CHR 0x96, CHR 0xB0, CHR 0xE4, CHR 0xBB, CHR 0xB7]"

text \<open>The column U+6DA8 U+8DCC U+5E45 (change in percent).\<close>

definition zhangdiefu :: string where
  "zhangdiefu =
     [CHR 0xE6, CHR 0xB6, CHR 0xA8, CHR 0xE8, CHR 0xB7, CHR 0x8C, CHR 0xE5, CHR 0xB9, CHR 0x85]"

text \<open>The column U+6210 U+4EA4 U+91CF (volume).\<close>

definition chengjiaoliang :: string where
  "chengjiaoliang =
     [CHR 0xE6, CHR 0x88, CHR 0x90, CHR 0xE4, CHR 0xBA, CHR 0xA4, CHR 0xE9, CHR 0x87, CHR 0x8F]"

text \<open>The message of \<open>NoDataFoundError\<close> in \<open>get_etf_basic_info\<close>, before the code (no basic info found for ETF code).\<close>

definition basic_info_not_found_1 :: string where
  "basic_info_not_found_1 =
     [CHR 0xE6, CHR 0x9C, CHR 0xAA, CHR 0xE6, CHR 0x89, CHR 0xBE, CHR 0xE5, CHR 0x88, CHR 0xB0] @
     ''ETF'' @ [CHR 0xE4, CHR 0xBB, CHR 0xA3, CHR 0xE7, CHR 0xA0, CHR 0x81] @ '' ''"

text \<open>The same message, after the code.\<close>

definition basic_info_not_found_2 :: string where
  "basic_info_not_found_2 =
     '' '' @
     [CHR 0xE7, CHR 0x9A, CHR 0x84, CHR 0xE5, CHR 0x9F, CHR 0xBA, CHR 0xE6, CHR 0x9C, CHR 0xAC] @
     [CHR 0xE4, CHR 0xBF, CHR 0xA1, CHR 0xE6, CHR 0x81, CHR 0xAF]"

text \<open>The prefix of the \<open>DataSourceError\<close> of \<open>get_etf_basic_info\<close> (fetching ETF basic info failed).\<close>

definition basic_info_failed :: string where
  "basic_info_failed =
     [CHR 0xE8, CHR 0x8E, CHR 0xB7, CHR 0xE5, CHR 0x8F, CHR 0x96] @ ''ETF'' @
     [CHR 0xE5, CHR 0x9F, CHR 0xBA, CHR 0xE6, CHR 0x9C, CHR 0xAC, CHR 0xE4, CHR 0xBF, CHR 0xA1] @
     [CHR 0xE6, CHR 0x81, CHR 0xAF, CHR 0xE5, CHR 0xA4, CHR 0xB1, CHR 0xE8, CHR 0xB4, CHR 0xA5] @
     '': ''"

text \<open>The prefix of the \<open>ValueError\<close> of \<open>get_etf_historical_data\<close> (unsupported frequency).\<close>

definition unsupported_frequency :: string where
  "unsupported_frequency =
     [CHR 0xE4, CHR 0xB8, CHR 0x8D, CHR 0xE6, CHR 0x94, CHR 0xAF, CHR 0xE6, CHR 0x8C, CHR 0x81] @
     [CHR 0xE7, CHR 0x9A, CHR 0x84, CHR 0xE9, CHR 0xA2, CHR 0x91, CHR 0xE7, CHR 0x8E, CHR 0x87] @
     '': ''"

text \<open>The start of the other \<open>NoDataFoundError\<close> messages (nothing found for ETF).\<close>

definition etf_not_found_1 :: string where
  "etf_not_found_1 =
     [CHR 0xE6, CHR 0x9C, CHR 0xAA, CHR 0xE6, CHR 0x89, CHR 0xBE, CHR 0xE5, CHR 0x88, CHR 0xB0] @
     ''ETF ''"

text \<open>The end of the message for historical data.\<close>

definition historical_not_found_2 :: string where
  "historical_not_found_2 =
     '' '' @
     [CHR 0xE7, CHR 0x9A, CHR 0x84, CHR 0xE5, CHR 0x8E, CHR 0x86, CHR 0xE5, CHR 0x8F, CHR 0xB2] @
     [CHR 0xE6, CHR 0x95, CHR 0xB0, CHR 0xE6, CHR 0x8D, CHR 0xAE]"

text \<open>The prefix of the \<open>DataSourceError\<close> of \<open>get_etf_historical_data\<close>.\<close>

definition historical_failed :: string where
  "historical_failed =
     [CHR 0xE8, CHR 0x8E, CHR 0xB7, CHR 0xE5, CHR 0x8F, CHR 0x96] @ ''ETF'' @
     [CHR 0xE5, CHR 0x8E, CHR 0x86, CHR 0xE5, CHR 0x8F, CHR 0xB2, CHR 0xE6, CHR 0x95, CHR 0xB0] @
     [CHR 0xE6, CHR 0x8D, CHR 0xAE, CHR 0xE5, CHR 0xA4, CHR 0xB1, CHR 0xE8, CHR 0xB4, CHR 0xA5] @
     '': ''"

text \<open>The end of the message for holdings.\<close>

definition holdings_not_found_2 :: string where
  "holdings_not_found_2 =
     '' '' @
     [CHR 0xE7, CHR 0x9A, CHR 0x84, CHR 0xE6, CHR 0x8C, CHR 0x81, CHR 0xE4, CHR 0xBB, CHR 0x93] @
     [CHR 0xE6, CHR 0x98, CHR 0x8E, CHR 0xE7, CHR 0xBB, CHR 0x86]"

text \<open>The prefix of the \<open>DataSourceError\<close> of \<open>get_etf_holdings\<close>.\<close>

definition holdings_failed :: string where
  "holdings_failed =
     [CHR 0xE8, CHR 0x8E, CHR 0xB7, CHR 0xE5, CHR 0x8F, CHR 0x96] @ ''ETF'' @
     [CHR 0xE6, CHR 0x8C, CHR 0x81, CHR 0xE4, CHR 0xBB, CHR 0x93, CHR 0xE6, CHR 0x98, CHR 0x8E] @
     [CHR 0xE7, CHR 0xBB, CHR 0x86, CHR 0xE5, CHR 0xA4, CHR 0xB1, CHR 0xE8, CHR 0xB4, CHR 0xA5] @
     '': ''"

text \<open>The prefix of the \<open>DataSourceError\<close> of \<open>get_etf_analysis\<close> (fetching ETF analysis data failed).\<close>

definition analysis_failed :: string where
  "analysis_failed =
     [CHR 0xE8, CHR 0x8E, CHR 0xB7, CHR 0xE5, CHR 0x8F, CHR 0x96] @ ''ETF'' @
     [CHR 0xE5, CHR 0x88, CHR 0x86, CHR 0xE6, CHR 0x9E, CHR 0x90, CHR 0xE6, CHR 0x95, CHR 0xB0] @
     [CHR 0xE6, CHR 0x8D, CHR 0xAE, CHR 0xE5, CHR 0xA4, CHR 0xB1, CHR 0xE8, CHR 0xB4, CHR 0xA5] @
     '': ''"

text \<open>
  The \<open>except\<close> clauses of a method of the data source: an exception of a class in
  \<open>keep\<close> is raised again as it is, any other one is replaced by a \<open>DataSourceError\<close>
  whose message is \<open>msg\<close> followed by the text of the exception.
\<close>

definition reraise :: "exn_class list \<Rightarrow> string \<Rightarrow> (exn + 'a) \<times> 'w \<Rightarrow> (exn + 'a) \<times> 'w" where
  "reraise keep msg r =
     (case r of
        (Inl e, w) \<Rightarrow>
          (if exn_class e \<in> set keep then (Inl e, w)
           else (Inl (Exn DataSourceError (msg @ exn_str e)), w))
      | (Inr x, w) \<Rightarrow> (Inr x, w))"

definition get_etf_basic_info_try :: "'w akshare \<Rightarrow> string \<Rightarrow> (dataframe, 'w) io" where
  "get_etf_basic_info_try ak etf_code w =
     (case fund_etf_spot_em ak w of
        (Inl e, w') \<Rightarrow> (Inl e, w')
      | (Inr etf_info, w') \<Rightarrow>
          (case df_column etf_info daima of
             Inl e \<Rightarrow> (Inl e, w')
           | Inr i \<Rightarrow>
               (let etf_data = df_where (\<lambda>r. r ! i = etf_code) etf_info
                in if df_empty etf_data then
                     (Inl (Exn NoDataFoundError
                             (basic_info_not_found_1 @ etf_code @ basic_info_not_found_2)), w')
                   else (Inr etf_data, w'))))"

definition get_etf_basic_info :: "'w akshare \<Rightarrow> string \<Rightarrow> (dataframe, 'w) io" where
  "get_etf_basic_info ak etf_code w =
     reraise [NoDataFoundError] basic_info_failed (get_etf_basic_info_try ak etf_code w)"

definition get_etf_historical_data_try ::
  "'w akshare \<Rightarrow> string \<Rightarrow> string \<Rightarrow> string \<Rightarrow> string \<Rightarrow> (dataframe, 'w) io" where
  "get_etf_historical_data_try ak etf_code start_date end_date frequency w =
     (case (if frequency = ''d'' then fund_etf_hist_em ak etf_code ''daily'' start_date end_date w
            else if frequency = ''w'' then
              fund_etf_hist_em ak etf_code ''weekly'' start_date end_date w
            else if frequency = ''m'' then
              fund_etf_hist_em ak etf_code ''monthly'' start_date end_date w
            else (Inl (Exn ValueError (unsupported_frequency @ frequency)), w)) of
        (Inl e, w') \<Rightarrow> (Inl e, w')
      | (Inr data, w') \<Rightarrow>
          (if df_empty data then
             (Inl (Exn NoDataFoundError (etf_not_found_1 @ etf_code @ historical_not_found_2)), w')
           else (Inr data, w')))"

text \<open>The argument \<open>frequency\<close> has the default \<open>"d"\<close>.\<close>

definition get_etf_historical_data ::
  "'w akshare \<Rightarrow> string \<Rightarrow> string \<Rightarrow> string \<Rightarrow> string option \<Rightarrow> (dataframe, 'w) io" where
  "get_etf_historical_data ak etf_code start_date end_date frequency w =
     reraise [NoDataFoundError, ValueError] historical_failed
       (get_etf_historical_data_try ak etf_code start_date end_date (arg_or frequency ''d'') w)"

definition get_etf_holdings_try :: "'w akshare \<Rightarrow> string \<Rightarrow> string option \<Rightarrow> (dataframe, 'w) io" where
  "get_etf_holdings_try ak etf_code date w =
     (case fund_etf_holdings_em ak etf_code w of
        (Inl e, w') \<Rightarrow> (Inl e, w')
      | (Inr holdings, w') \<Rightarrow>
          (if df_empty holdings then
             (Inl (Exn NoDataFoundError (etf_not_found_1 @ etf_code @ holdings_not_found_2)), w')
           else (Inr holdings, w')))"

definition get_etf_holdings :: "'w akshare \<Rightarrow> string \<Rightarrow> string option \<Rightarrow> (dataframe, 'w) io" where
  "get_etf_holdings ak etf_code date w =
     reraise [NoDataFoundError] holdings_failed (get_etf_holdings_try ak etf_code date w)"

text \<open>The dictionary \<open>analysis_data\<close>: its three keys are the fields.\<close>

record analysis_data =
  basic_info :: dataframe
  recent_performance :: dataframe
  holdings :: dataframe

definition get_etf_analysis_try :: "'w akshare \<Rightarrow> date \<Rightarrow> string \<Rightarrow> (analysis_data, 'w) io" where
  "get_etf_analysis_try ak now etf_code w =
     (case get_etf_basic_info ak etf_code w of
        (Inl e, w1) \<Rightarrow> (Inl e, w1)
      | (Inr basic_info', w1) \<Rightarrow>
          (let end_date = strftime now in
           case minus_days now 30 of
             Inl e \<Rightarrow> (Inl e, w1)
           | Inr start \<Rightarrow>
               (let start_date = strftime start in
                case get_etf_historical_data ak etf_code start_date end_date None w1 of
                  (Inl e, w2) \<Rightarrow> (Inl e, w2)
                | (Inr recent_performance', w2) \<Rightarrow>
                    (case get_etf_holdings ak etf_code None w2 of
                       (Inl e, w3) \<Rightarrow> (Inl e, w3)
                     | (Inr holdings', w3) \<Rightarrow>
                         (Inr \<lparr>basic_info = basic_info',
                               recent_performance = recent_performance',
                               holdings = holdings'\<rparr>, w3)))))"

definition get_etf_analysis :: "'w akshare \<Rightarrow> date \<Rightarrow> string \<Rightarrow> (analysis_data, 'w) io" where
  "get_etf_analysis ak now etf_code w =
     reraise [] analysis_failed (get_etf_analysis_try ak now etf_code w)"

section \<open>\<open>src/tools/etf_analysis.py\<close>: \<open>compare_etfs\<close>\<close>

text \<open>The answer to fewer than two codes (error: at least 2 ETF codes are needed to compare).\<close>

definition too_few_codes :: string where
  "too_few_codes =
     [CHR 0xE9, CHR 0x94, CHR 0x99, CHR 0xE8, CHR 0xAF, CHR 0xAF] @ '': '' @
     [CHR 0xE8, CHR 0x87, CHR 0xB3, CHR 0xE5, CHR 0xB0, CHR 0x91, CHR 0xE9, CHR 0x9C, CHR 0x80] @
     [CHR 0xE8, CHR 0xA6, CHR 0x81] @ ''2'' @ [CHR 0xE4, CHR 0xB8, CHR 0xAA] @ ''ETF'' @
     [CHR 0xE4, CHR 0xBB, CHR 0xA3, CHR 0xE7, CHR 0xA0, CHR 0x81, CHR 0xE8, CHR 0xBF, CHR 0x9B] @
     [CHR 0xE8, CHR 0xA1, CHR 0x8C, CHR 0xE6, CHR 0xAF, CHR 0x94, CHR 0xE8, CHR 0xBE, CHR 0x83]"

text \<open>The report up to and including the header of the table: title, disclaimer, section heading, column titles, separator row.\<close>

definition report_head :: string where
  "report_head =
     ''# ETF'' @
     [CHR 0xE6, CHR 0xAF, CHR 0x94, CHR 0xE8, CHR 0xBE, CHR 0x83, CHR 0xE5, CHR 0x88, CHR 0x86] @
     [CHR 0xE6, CHR 0x9E, CHR 0x90, CHR 0x0A, CHR 0x0A] @ ''## '' @
     [CHR 0xE5, CHR 0x85, CHR 0x8D, CHR 0xE8, CHR 0xB4, CHR 0xA3, CHR 0xE5, CHR 0xA3, CHR 0xB0] @
     [CHR 0xE6, CHR 0x98, CHR 0x8E, CHR 0x0A, CHR 0xE6, CHR 0x9C, CHR 0xAC, CHR 0xE6, CHR 0x8A] @
     [CHR 0xA5, CHR 0xE5, CHR 0x91, CHR 0x8A, CHR 0xE5, CHR 0x9F, CHR 0xBA, CHR 0xE4, CHR 0xBA] @
     [CHR 0x8E, CHR 0xE5, CHR 0x85, CHR 0xAC, CHR 0xE5, CHR 0xBC, CHR 0x80, CHR 0xE6, CHR 0x95] @
     [CHR 0xB0, CHR 0xE6, CHR 0x8D, CHR 0xAE, CHR 0xE7, CHR 0x94, CHR 0x9F, CHR 0xE6, CHR 0x88] @
     [CHR 0x90, CHR 0xEF, CHR 0xBC, CHR 0x8C, CHR 0xE4, CHR 0xBB, CHR 0x85, CHR 0xE4, CHR 0xBE] @
     [CHR 0x9B, CHR 0xE5, CHR 0x8F, CHR 0x82, CHR 0xE8, CHR 0x80, CHR 0x83, CHR 0xEF, CHR 0xBC] @
     [CHR 0x8C, CHR 0xE4, CHR 0xB8, CHR 0x8D, CHR 0xE6, CHR 0x9E, CHR 0x84, CHR 0xE6, CHR 0x88] @
     [CHR 0x90, CHR 0xE6, CHR 0x8A, CHR 0x95, CHR 0xE8, CHR 0xB5, CHR 0x84, CHR 0xE5, CHR 0xBB] @
     [CHR 0xBA, CHR 0xE8, CHR 0xAE, CHR 0xAE, CHR 0xE3, CHR 0x80, CHR 0x82, CHR 0x0A, CHR 0x0A] @
     ''## '' @
     [CHR 0xE5, CHR 0x9F, CHR 0xBA, CHR 0xE6, CHR 0x9C, CHR 0xAC, CHR 0xE4, CHR 0xBF, CHR 0xA1] @
     [CHR 0xE6, CHR 0x81, CHR 0xAF, CHR 0xE6, CHR 0xAF, CHR 0x94, CHR 0xE8, CHR 0xBE, CHR 0x83] @
     [CHR 0x0A] @ ''| ETF'' @ [CHR 0xE4, CHR 0xBB, CHR 0xA3, CHR 0xE7, CHR 0xA0, CHR 0x81] @
     '' | '' @ [CHR 0xE5, CHR 0x90, CHR 0x8D, CHR 0xE7, CHR 0xA7, CHR 0xB0] @ '' | '' @
     [CHR 0xE6, CHR 0x9C, CHR 0x80, CHR 0xE6, CHR 0x96, CHR 0xB0, CHR 0xE4, CHR 0xBB, CHR 0xB7] @
     '' | '' @
     [CHR 0xE6, CHR 0xB6, CHR 0xA8, CHR 0xE8, CHR 0xB7, CHR 0x8C, CHR 0xE5, CHR 0xB9, CHR 0x85] @
     '' | '' @
     [CHR 0xE6, CHR 0x88, CHR 0x90, CHR 0xE4, CHR 0xBA, CHR 0xA4, CHR 0xE9, CHR 0x87, CHR 0x8F] @
     '' |'' @ [CHR 0x0A] @ ''|---------|------|--------|--------|--------|'' @ [CHR 0x0A]"

text \<open>The cells of a row for a code without data: U+6570 U+636E U+83B7 U+53D6 U+5931 U+8D25 (fetching the data failed).\<close>

definition fetch_failed_cells :: string where
  "fetch_failed_cells =
     '' | '' @
     [CHR 0xE6, CHR 0x95, CHR 0xB0, CHR 0xE6, CHR 0x8D, CHR 0xAE, CHR 0xE8, CHR 0x8E, CHR 0xB7] @
     [CHR 0xE5, CHR 0x8F, CHR 0x96, CHR 0xE5, CHR 0xA4, CHR 0xB1, CHR 0xE8, CHR 0xB4, CHR 0xA5] @
     '' | N/A | N/A | N/A |'' @ [CHR 0x0A]"

text \<open>The conclusions that close the report.\<close>

definition report_tail :: string where
  "report_tail =
     [CHR 0x0A] @ ''## '' @
     [CHR 0xE6, CHR 0xAF, CHR 0x94, CHR 0xE8, CHR 0xBE, CHR 0x83, CHR 0xE7, CHR 0xBB, CHR 0x93] @
     [CHR 0xE8, CHR 0xAE, CHR 0xBA, CHR 0x0A] @ ''- '' @
     [CHR 0xE4, CHR 0xBB, CHR 0xA5, CHR 0xE4, CHR 0xB8, CHR 0x8A, CHR 0xE6, CHR 0x95, CHR 0xB0] @
     [CHR 0xE6, CHR 0x8D, CHR 0xAE, CHR 0xE4, CHR 0xBB, CHR 0x85, CHR 0xE4, CHR 0xBE, CHR 0x9B] @
     [CHR 0xE5, CHR 0x8F, CHR 0x82, CHR 0xE8, CHR 0x80, CHR 0x83, CHR 0xEF, CHR 0xBC, CHR 0x8C] @
     [CHR 0xE5, CHR 0xBB, CHR 0xBA, CHR 0xE8, CHR 0xAE, CHR 0xAE, CHR 0xE7, CHR 0xBB, CHR 0x93] @
     [CHR 0xE5, CHR 0x90, CHR 0x88, CHR 0xE5, CHR 0x85, CHR 0xB7, CHR 0xE4, CHR 0xBD, CHR 0x93] @
     [CHR 0xE6, CHR 0x8A, CHR 0x95, CHR 0xE8, CHR 0xB5, CHR 0x84, CHR 0xE9, CHR 0x9C, CHR 0x80] @
     [CHR 0xE6, CHR 0xB1, CHR 0x82, CHR 0xE8, CHR 0xBF, CHR 0x9B, CHR 0xE8, CHR 0xA1, CHR 0x8C] @
     [CHR 0xE9, CHR 0x80, CHR 0x89, CHR 0xE6, CHR 0x8B, CHR 0xA9, CHR 0x0A] @ ''- '' @
     [CHR 0xE4, CHR 0xB8, CHR 0x8D, CHR 0xE5, CHR 0x90, CHR 0x8C] @ ''ETF'' @
     [CHR 0xE7, CHR 0x9A, CHR 0x84, CHR 0xE8, CHR 0xB7, CHR 0x9F, CHR 0xE8, CHR 0xB8, CHR 0xAA] @
     [CHR 0xE6, CHR 0x8C, CHR 0x87, CHR 0xE6, CHR 0x95, CHR 0xB0, CHR 0xE5, CHR 0x92, CHR 0x8C] @
     [CHR 0xE6, CHR 0x8A, CHR 0x95, CHR 0xE8, CHR 0xB5, CHR 0x84, CHR 0xE7, CHR 0xAD, CHR 0x96] @
     [CHR 0xE7, CHR 0x95, CHR 0xA5, CHR 0xE5, CHR 0x8F, CHR 0xAF, CHR 0xE8, CHR 0x83, CHR 0xBD] @
     [CHR 0xE5, CHR 0xAD, CHR 0x98, CHR 0xE5, CHR 0x9C, CHR 0xA8, CHR 0xE5, CHR 0xB7, CHR 0xAE] @
     [CHR 0xE5, CHR 0xBC, CHR 0x82, CHR 0x0A] @ ''- '' @
     [CHR 0xE6, CHR 0x8A, CHR 0x95, CHR 0xE8, CHR 0xB5, CHR 0x84, CHR 0xE5, CHR 0x86, CHR 0xB3] @
     [CHR 0xE7, CHR 0xAD, CHR 0x96, CHR 0xE5, CHR 0xBA, CHR 0x94, CHR 0xE5, CHR 0x9F, CHR 0xBA] @
     [CHR 0xE4, CHR 0xBA, CHR 0x8E, CHR 0xE4, CHR 0xB8, CHR 0xAA, CHR 0xE4, CHR 0xBA, CHR 0xBA] @
     [CHR 0xE9, CHR 0xA3, CHR 0x8E, CHR 0xE9, CHR 0x99, CHR 0xA9, CHR 0xE6, CHR 0x89, CHR 0xBF] @
     [CHR 0xE5, CHR 0x8F, CHR 0x97, CHR 0xE8, CHR 0x83, CHR 0xBD, CHR 0xE5, CHR 0x8A, CHR 0x9B] @
     [CHR 0xE5, CHR 0x92, CHR 0x8C, CHR 0xE6, CHR 0x8A, CHR 0x95, CHR 0xE8, CHR 0xB5, CHR 0x84] @
     [CHR 0xE7, CHR 0x9B, CHR 0xAE, CHR 0xE6, CHR 0xA0, CHR 0x87, CHR 0x0A]"

text \<open>The prefix of the answer of the outer \<open>except\<close> (error: an unexpected error occurred).\<close>

definition unexpected_error_zh :: string where
  "unexpected_error_zh =
     [CHR 0xE9, CHR 0x94, CHR 0x99, CHR 0xE8, CHR 0xAF, CHR 0xAF] @ '': '' @
     [CHR 0xE5, CHR 0x8F, CHR 0x91, CHR 0xE7, CHR 0x94, CHR 0x9F, CHR 0xE6, CHR 0x84, CHR 0x8F] @
     [CHR 0xE5, CHR 0xA4, CHR 0x96, CHR 0xE9, CHR 0x94, CHR 0x99, CHR 0xE8, CHR 0xAF, CHR 0xAF] @
     '': ''"

text \<open>
  \<open>etf_data[code] = value\<close> on a dictionary, which keeps its keys in the order of their
  first insertion: a pair list with one pair for each key.
\<close>

fun dict_set :: "('k \<times> 'v) list \<Rightarrow> 'k \<Rightarrow> 'v \<Rightarrow> ('k \<times> 'v) list" where
  "dict_set [] k v = [(k, v)]"
| "dict_set ((k', v') # kvs) k v =
     (if k' = k then (k, v) # kvs else (k', v') # dict_set kvs k v)"

text \<open>
  The loop that fetches the basic info of each code through
  \<open>active_etf_data_source.get_etf_basic_info\<close>, here \<open>get_basic\<close>: the inner \<open>except\<close>
  stores \<open>None\<close> for a code whose fetch raised.
\<close>

fun fetch_each ::
  "(string \<Rightarrow> (dataframe, 'w) io) \<Rightarrow> string list \<Rightarrow> (string \<times> dataframe option) list \<Rightarrow> 'w \<Rightarrow>
   (string \<times> dataframe option) list \<times> 'w" where
  "fetch_each get_basic [] etf_data w = (etf_data, w)"
| "fetch_each get_basic (code # codes) etf_data w =
     (case get_basic code w of
        (Inl e, w') \<Rightarrow> fetch_each get_basic codes (dict_set etf_data code None) w'
      | (Inr basic_info', w') \<Rightarrow>
          fetch_each get_basic codes (dict_set etf_data code (Some basic_info')) w')"

text \<open>\<open>data[col].iloc[0] if col in data.columns else 'N/A'\<close>, for the first row \<open>r\<close>.\<close>

definition cell_or_na :: "dataframe \<Rightarrow> string list \<Rightarrow> string \<Rightarrow> string" where
  "cell_or_na data r col =
     (case index_of col (columns data) of None \<Rightarrow> ''N/A'' | Some i \<Rightarrow> r ! i)"

definition data_row :: "string \<Rightarrow> dataframe \<Rightarrow> string list \<Rightarrow> string" where
  "data_row code data r =
     ''| '' @ code @ '' | '' @ cell_or_na data r mingcheng @ '' | '' @
     cell_or_na data r zuixinjia @ '' | '' @ cell_or_na data r zhangdiefu @ ''% | '' @
     cell_or_na data r chengjiaoliang @ '' |'' @ [CHR 0x0A]"

definition failed_row :: "string \<Rightarrow> string" where
  "failed_row code = ''| '' @ code @ fetch_failed_cells"

text \<open>
  One round of the loop over \<open>etf_data.items()\<close>. The test
  \<open>data is not None and not data.empty\<close> holds exactly when the frame has a column and a
  first row, the row that \<open>iloc[0]\<close> then reads.
\<close>

definition compare_row :: "string \<times> dataframe option \<Rightarrow> string" where
  "compare_row item =
     (case item of
        (code, None) \<Rightarrow> failed_row code
      | (code, Some data) \<Rightarrow>
          (case rows data of
             [] \<Rightarrow> failed_row code
           | r # _ \<Rightarrow> if columns data = [] then failed_row code else data_row code data r))"

definition compare_etfs_try ::
  "(string \<Rightarrow> (dataframe, 'w) io) \<Rightarrow> string \<Rightarrow> string \<Rightarrow> (string, 'w) io" where
  "compare_etfs_try get_basic etf_codes comparison_type w =
     (let codes = map py_strip (split_comma etf_codes) in
      if length codes < 2 then (Inr too_few_codes, w)
      else
        (case fetch_each get_basic codes [] w of
           (etf_data, w') \<Rightarrow>
             (Inr (report_head @ concat (map compare_row etf_data) @ report_tail), w')))"

text \<open>The argument \<open>comparison_type\<close> has the default \<open>"performance"\<close>; it is not read.\<close>

definition compare_etfs ::
  "(string \<Rightarrow> (dataframe, 'w) io) \<Rightarrow> string \<Rightarrow> string option \<Rightarrow> 'w \<Rightarrow> string \<times> 'w" where
  "compare_etfs get_basic etf_codes comparison_type w =
     try_except
       (compare_etfs_try get_basic etf_codes (arg_or comparison_type ''performance'') w)
       (\<lambda>e. unexpected_error_zh @ exn_str e)"

section \<open>\<open>src/tools/helpers.py\<close>\<close>

text \<open>The body of the \<open>try\<close> of \<open>normalize_stock_code\<close>.\<close>

definition normalize_stock_code_try :: "re_dialect \<Rightarrow> string \<Rightarrow> exn + string" where
  "normalize_stock_code_try dialect code =
     (let raw = py_strip code in
      if raw = [] then Inr (''Error: '' @ [CHR 0x27] @ ''code'' @ [CHR 0x27] @ '' is required.'')
      else
        (case fullmatch_ex_num raw of
           Some (ex, num) \<Rightarrow> Inr (py_lower ex @ ''.'' @ num)
         | None \<Rightarrow>
             (case fullmatch_num_ex dialect raw of
                Inl e \<Rightarrow> Inl e
              | Inr (Some (num, ex)) \<Rightarrow> Inr (py_lower ex @ ''.'' @ num)
              | Inr None \<Rightarrow>
                  (case fullmatch_num raw of
                     Some num \<Rightarrow>
                       Inr ((if take 1 num = ''6'' then ''sh'' else ''sz'') @ ''.'' @ num)
                   | None \<Rightarrow>
                       Inr (''Error: Unsupported code format. Examples: '' @
                            [CHR 0x27] @ ''sh.600000'' @ [CHR 0x27] @ '', '' @
                            [CHR 0x27] @ ''600000'' @ [CHR 0x27] @ '', '' @
                            [CHR 0x27] @ ''000001.SZ'' @ [CHR 0x27] @ ''.'')))))"

text \<open>\<open>except Exception as e: return f"Error: {e}"\<close>.\<close>

definition normalize_stock_code :: "re_dialect \<Rightarrow> string \<Rightarrow> string" where
  "normalize_stock_code dialect code =
     (case normalize_stock_code_try dialect code of
        Inl e \<Rightarrow> ''Error: '' @ exn_str e
      | Inr s \<Rightarrow> s)"

section \<open>\<open>src/tools/date_utils.py\<close>: the trading calendar\<close>

text \<open>
  The four tools query \<open>active_data_source.get_trade_dates\<close>, here the parameter
  \<open>get_trade_dates_of\<close>.
\<close>

type_synonym 'w trade_dates = "string option \<Rightarrow> string option \<Rightarrow> (dataframe option, 'w) io"

text \<open>One round of the loop over \<open>valid_trading_days\<close>.\<close>

definition latest_step :: "string \<Rightarrow> string \<Rightarrow> string option \<Rightarrow> string option" where
  "latest_step today dstr latest_trading_date =
     (if dstr \<le> today \<and> (case latest_trading_date of None \<Rightarrow> True | Some l \<Rightarrow> l < dstr)
      then Some dstr else latest_trading_date)"

definition get_latest_trading_date_try :: "'w trade_dates \<Rightarrow> date \<Rightarrow> (string, 'w) io" where
  "get_latest_trading_date_try get_trade_dates_of now w =
     (let today = strftime now;
          start_date = strftime (now\<lparr>day := 1\<rparr>);
          end_date = strftime (now\<lparr>day := 28\<rparr>)
      in case get_trade_dates_of (Some start_date) (Some end_date) w of
           (Inl e, w') \<Rightarrow> (Inl e, w')
         | (Inr None, w') \<Rightarrow>
             (Inl (Exn TypeError (sq @ ''NoneType'' @ sq @ '' object is not subscriptable'')), w')
         | (Inr (Some df), w') \<Rightarrow>
             (case df_column df ''is_trading_day'' of
                Inl e \<Rightarrow> (Inl e, w')
              | Inr flag \<Rightarrow>
                  (case df_column df ''calendar_date'' of
                     Inl e \<Rightarrow> (Inl e, w')
                   | Inr cal \<Rightarrow>
                       (let valid_trading_days =
                              map (\<lambda>r. r ! cal) (rows (df_where (\<lambda>r. r ! flag = ''1'') df))
                        in case fold (latest_step today) valid_trading_days None of
                             None \<Rightarrow> (Inr today, w')
                           | Some latest_trading_date \<Rightarrow>
                               (if latest_trading_date \<noteq> [] then (Inr latest_trading_date, w')
                                else (Inr today, w'))))))"

text \<open>The \<open>except\<close> clause returns today's date whatever was raised.\<close>

definition get_latest_trading_date :: "'w trade_dates \<Rightarrow> date \<Rightarrow> 'w \<Rightarrow> string \<times> 'w" where
  "get_latest_trading_date get_trade_dates_of now w =
     try_except (get_latest_trading_date_try get_trade_dates_of now w) (\<lambda>e. strftime now)"

text \<open>
  \<open>'is_trading_day' if 'is_trading_day' in df.columns else df.columns[-1]\<close> and
  \<open>'calendar_date' if 'calendar_date' in df.columns else df.columns[0]\<close>, as positions, for
  a frame with at least one column.
\<close>

definition flag_col :: "dataframe \<Rightarrow> nat" where
  "flag_col df =
     (case index_of ''is_trading_day'' (columns df) of
        Some i \<Rightarrow> i
      | None \<Rightarrow> length (columns df) - 1)"

definition day_col :: "dataframe \<Rightarrow> nat" where
  "day_col df = (case index_of ''calendar_date'' (columns df) of Some i \<Rightarrow> i | None \<Rightarrow> 0)"

text \<open>\<open>df.iloc[0]\<close> and \<open>df.iloc[-1]\<close>.\<close>

definition iloc_first :: "dataframe \<Rightarrow> exn + string list" where
  "iloc_first df =
     (case rows df of
        [] \<Rightarrow> Inl (Exn IndexError ''single positional indexer is out-of-bounds'')
      | r # _ \<Rightarrow> Inr r)"

definition iloc_last :: "dataframe \<Rightarrow> exn + string list" where
  "iloc_last df =
     (case rev (rows df) of
        [] \<Rightarrow> Inl (Exn IndexError ''single positional indexer is out-of-bounds'')
      | r # _ \<Rightarrow> Inr r)"

definition is_trading_day_try :: "'w trade_dates \<Rightarrow> string \<Rightarrow> (string, 'w) io" where
  "is_trading_day_try get_trade_dates_of date w =
     (case get_trade_dates_of (Some date) (Some date) w of
        (Inl e, w') \<Rightarrow> (Inl e, w')
      | (Inr None, w') \<Rightarrow> (Inr ''No'', w')
      | (Inr (Some df), w') \<Rightarrow>
          (if df_empty df then (Inr ''No'', w')
           else
             (case iloc_first df of
                Inl e \<Rightarrow> (Inl e, w')
              | Inr r \<Rightarrow> (Inr (if r ! flag_col df = ''1'' then ''Yes'' else ''No''), w'))))"

text \<open>\<open>except Exception as e: return f"Error: {e}"\<close>, the clause of the three tools.\<close>

definition error_colon :: "exn \<Rightarrow> string" where
  "error_colon e = ''Error: '' @ exn_str e"

definition is_trading_day :: "'w trade_dates \<Rightarrow> string \<Rightarrow> 'w \<Rightarrow> string \<times> 'w" where
  "is_trading_day get_trade_dates_of date w =
     try_except (is_trading_day_try get_trade_dates_of date w) error_colon"

definition previous_trading_day_try :: "'w trade_dates \<Rightarrow> string \<Rightarrow> (string, 'w) io" where
  "previous_trading_day_try get_trade_dates_of date w =
     (case strptime date of
        Inl e \<Rightarrow> (Inl e, w)
      | Inr d \<Rightarrow>
          (case minus_days d 30 of
             Inl e \<Rightarrow> (Inl e, w)
           | Inr s \<Rightarrow>
               (case get_trade_dates_of (Some (strftime s)) (Some date) w of
                  (Inl e, w') \<Rightarrow> (Inl e, w')
                | (Inr None, w') \<Rightarrow> (Inr date, w')
                | (Inr (Some df), w') \<Rightarrow>
                    (if df_empty df then (Inr date, w')
                     else
                       (let candidates =
                              sort_values (day_col df)
                                (df_where (\<lambda>r. r ! flag_col df = ''1'' \<and> r ! day_col df < date) df)
                        in if df_empty candidates then (Inr date, w')
                           else
                             (case iloc_last candidates of
                                Inl e \<Rightarrow> (Inl e, w')
                              | Inr r \<Rightarrow> (Inr (r ! day_col df), w')))))))"

definition previous_trading_day :: "'w trade_dates \<Rightarrow> string \<Rightarrow> 'w \<Rightarrow> string \<times> 'w" where
  "previous_trading_day get_trade_dates_of date w =
     try_except (previous_trading_day_try get_trade_dates_of date w) error_colon"

definition next_trading_day_try :: "'w trade_dates \<Rightarrow> string \<Rightarrow> (string, 'w) io" where
  "next_trading_day_try get_trade_dates_of date w =
     (case strptime date of
        Inl e \<Rightarrow> (Inl e, w)
      | Inr d \<Rightarrow>
          (case plus_days d 30 of
             Inl e \<Rightarrow> (Inl e, w)
           | Inr s \<Rightarrow>
               (case get_trade_dates_of (Some date) (Some (strftime s)) w of
                  (Inl e, w') \<Rightarrow> (Inl e, w')
                | (Inr None, w') \<Rightarrow> (Inr date, w')
                | (Inr (Some df), w') \<Rightarrow>
                    (if df_empty df then (Inr date, w')
                     else
                       (let candidates =
                              sort_values (day_col df)
                                (df_where (\<lambda>r. r ! flag_col df = ''1'' \<and> date < r ! day_col df) df)
                        in if df_empty candidates then (Inr date, w')
                           else
                             (case iloc_first candidates of
                                Inl e \<Rightarrow> (Inl e, w')
                              | Inr r \<Rightarrow> (Inr (r ! day_col df), w')))))))"

definition next_trading_day :: "'w trade_dates \<Rightarrow> string \<Rightarrow> 'w \<Rightarrow> string \<times> 'w" where
  "next_trading_day get_trade_dates_of date w =
     try_except (next_trading_day_try get_trade_dates_of date w) error_colon"

section \<open>\<open>src/tools/date_utils.py\<close>: the analysis timeframe\<close>

text \<open>The characters U+5E74 (year) and U+6708 (month) of the label, in UTF-8.\<close>

definition nian :: string where
  "nian = [CHR 0xE5, CHR 0xB9, CHR 0xB4]"

definition yue :: string where
  "yue = [CHR 0xE6, CHR 0x9C, CHR 0x88]"

text \<open>Two constructor calls in sequence: the first exception raised is the one seen.\<close>

definition both :: "exn + 'a \<Rightarrow> exn + 'b \<Rightarrow> exn + ('a \<times> 'b)" where
  "both a b =
     (case a of Inl e \<Rightarrow> Inl e
      | Inr x \<Rightarrow> (case b of Inl e \<Rightarrow> Inl e | Inr y \<Rightarrow> Inr (x, y)))"

definition twice :: "exn + 'a \<Rightarrow> exn + ('a \<times> 'a)" where
  "twice a = (case a of Inl e \<Rightarrow> Inl e | Inr x \<Rightarrow> Inr (x, x))"

text \<open>
  The \<open>if\<close>/\<open>elif\<close> chain on \<open>period\<close> that computes \<open>(start_date, middle_date)\<close>;
  \<open>middle_date = start_date\<close> is \<open>twice\<close>.
\<close>

definition timeframe_start_middle :: "date \<Rightarrow> string \<Rightarrow> exn + (date \<times> date)" where
  "timeframe_start_middle now period =
     (if period = ''recent'' then
        (if day now < 15 then
           (if month now = 1 then
              both (datetime (year now - 1) 11 1) (datetime (year now - 1) 12 1)
            else if month now = 2 then twice (datetime (year now) 1 1)
            else both (datetime (year now) (month now - 2) 1)
                      (datetime (year now) (month now - 1) 1))
         else
           (if month now = 1 then twice (datetime (year now - 1) 12 1)
            else twice (datetime (year now) (month now - 1) 1)))
      else if period = ''quarter'' then
        twice (if month now \<le> 3 then datetime (year now - 1) (month now + 9) 1
               else datetime (year now) (month now - 3) 1)
      else if period = ''half_year'' then
        (case (if month now \<le> 6 then datetime (year now - 1) (month now + 6) 1
               else datetime (year now) (month now - 6) 1) of
           Inl e \<Rightarrow> Inl e
         | Inr start_date \<Rightarrow>
             both (Inr start_date)
               (if month start_date \<le> 9
                then datetime (year start_date) (month start_date + 3) 1
                else datetime (year start_date + 1) (month start_date - 9) 1))
      else if period = ''year'' then
        (case datetime (year now - 1) (month now) 1 of
           Inl e \<Rightarrow> Inl e
         | Inr start_date \<Rightarrow>
             both (Inr start_date)
               (if month start_date \<le> 6
                then datetime (year start_date) (month start_date + 6) 1
                else datetime (year start_date + 1) (month start_date - 6) 1))
      else
        twice (if month now = 1 then datetime (year now - 1) 12 1
               else datetime (year now) (month now - 1) 1))"

definition timeframe_end_iso :: "date \<Rightarrow> string" where
  "timeframe_end_iso end_date =
     (let end_day = min (get_month_end_day (year end_date) (month end_date)) (day end_date)
      in str_int (year end_date) @ ''-'' @ fmt_02d (month end_date) @ ''-'' @ fmt_02d end_day)"

definition timeframe_start_iso :: "date \<Rightarrow> string" where
  "timeframe_start_iso start_date =
     str_int (year start_date) @ ''-'' @ fmt_02d (month start_date) @ ''-01''"

definition timeframe_label :: "date \<Rightarrow> date \<Rightarrow> date \<Rightarrow> string" where
  "timeframe_label start_date middle_date end_date =
     (if year start_date \<noteq> year end_date then
        str_int (year start_date) @ nian @ str_int (month start_date) @ yue @ ''-'' @
        str_int (year end_date) @ nian @ str_int (month end_date) @ yue
      else if month middle_date \<noteq> month start_date \<and> month middle_date \<noteq> month end_date then
        str_int (year start_date) @ nian @ str_int (month start_date) @ yue @ ''-'' @
        str_int (month middle_date) @ yue @ ''-'' @ str_int (month end_date) @ yue
      else if month start_date \<noteq> month end_date then
        str_int (year start_date) @ nian @ str_int (month start_date) @ yue @ ''-'' @
        str_int (month end_date) @ yue
      else str_int (year start_date) @ nian @ str_int (month start_date) @ yue)"

text \<open>
  \<open>get_market_analysis_timeframe\<close> has no \<open>try\<close>: an exception of a constructor call
  leaves the tool, which the result type shows.
\<close>

definition get_market_analysis_timeframe :: "date \<Rightarrow> string \<Rightarrow> exn + string" where
  "get_market_analysis_timeframe now period =
     (case timeframe_start_middle now period of
        Inl e \<Rightarrow> Inl e
      | Inr (start_date, middle_date) \<Rightarrow>
          Inr (timeframe_label start_date middle_date now @ '' (ISO: '' @
               timeframe_start_iso start_date @ '' to '' @ timeframe_end_iso now @ '')''))"

section \<open>Sample providers\<close>

text \<open>
  Concrete providers on which the theorems below are instantiated. Their world is the
  list of the calls made so far, so the world a tool returns shows which calls it made.
\<close>

definition sample_quotes :: dataframe where
  "sample_quotes =
     \<lparr>columns = [daima, mingcheng, zuixinjia, zhangdiefu, chengjiaoliang],
      rows = [[''510300'', ''HS300ETF'', ''4.01'', ''0.52'', ''1000''],
              [''159919'', ''HS300B'', ''4.10'', ''0.10'', ''2000'']]\<rparr>"

definition sample_history :: dataframe where
  "sample_history = \<lparr>columns = [''date'', ''close''], rows = [[''2025-03-14'', ''4.01'']]\<rparr>"

definition sample_holdings :: dataframe where
  "sample_holdings = \<lparr>columns = [''stock'', ''weight''], rows = [[''600519'', ''5.1'']]\<rparr>"

definition no_holdings :: dataframe where
  "no_holdings = \<lparr>columns = [''stock'', ''weight''], rows = []\<rparr>"

definition sample_ak :: "dataframe \<Rightarrow> string list akshare" where
  "sample_ak held =
     \<lparr>fund_etf_spot_em = (\<lambda>w. (Inr sample_quotes, w @ [''spot''])),
      fund_etf_hist_em = (\<lambda>symbol period start_date end_date w.
         (Inr sample_history,
          w @ [''hist '' @ symbol @ '' '' @ period @ '' '' @ start_date @ '' '' @ end_date])),
      fund_etf_holdings_em = (\<lambda>symbol w. (Inr held, w @ [''holdings '' @ symbol]))\<rparr>"

definition recording_method ::
  "exn + dataframe option \<Rightarrow> string \<Rightarrow> string \<Rightarrow> int \<Rightarrow>
   (dataframe option, (string \<times> string \<times> int) list) io" where
  "recording_method answer code year' quarter w = (answer, w @ [(code, year', quarter)])"

text \<open>A renderer that prints the row cap it is given.\<close>

definition show_cap :: renderer where
  "show_cap df format max_rows meta = Inr (''max_rows='' @ str_int max_rows)"

definition sample_stocks :: dataframe where
  "sample_stocks =
     \<lparr>columns = [''code'', ''tradeStatus''],
      rows = [[''sh.600000'', ''1''], [''sz.000001'', ''0'']]\<rparr>"

definition sample_source :: "string list financial_data_source" where
  "sample_source =
     \<lparr>ds_get_trade_dates = (\<lambda>s e w. (Inr None, w @ [''get_trade_dates''])),
      ds_get_all_stock = (\<lambda>d w. (Inr (Some sample_stocks), w @ [''get_all_stock''])),
      ds_get_stock_industry = (\<lambda>c d w. (Inr None, w @ [''get_stock_industry''])),
      ds_get_sz50_stocks = (\<lambda>d w. (Inr None, w @ [''get_sz50_stocks''])),
      ds_get_hs300_stocks = (\<lambda>d w. (Inr None, w @ [''get_hs300_stocks''])),
      ds_get_zz500_stocks = (\<lambda>d w. (Inr None, w @ [''get_zz500_stocks'']))\<rparr>"

text \<open>A keyword without regular-expression operators matches the cells that contain it.\<close>

definition literal_contains :: "string \<Rightarrow> exn + (string \<Rightarrow> bool)" where
  "literal_contains kw = Inr (\<lambda>cell. sublist kw cell)"

text \<open>
  The renderer that is \<open>fto\<close> with the row cap fixed to \<open>n\<close>: a tool that answers the same
  with \<open>fto\<close> and with \<open>pin_cap n fto\<close>, for every \<open>fto\<close>, passes no cap but \<open>n\<close>.
\<close>

definition pin_cap :: "int \<Rightarrow> renderer \<Rightarrow> renderer" where
  "pin_cap n fto = (\<lambda>df format max_rows meta. fto df format n meta)"

definition sample_calendar :: dataframe where
  "sample_calendar =
     \<lparr>columns = [''calendar_date'', ''is_trading_day''],
      rows = [[''2025-01-01'', ''0''], [''2025-01-02'', ''1''], [''2025-01-03'', ''1''],
              [''2025-01-04'', ''0''], [''2025-01-05'', ''0''], [''2025-01-06'', ''1'']]\<rparr>"

definition recording_calendar ::
  "exn + dataframe option \<Rightarrow> (string option \<times> string option) list trade_dates" where
  "recording_calendar answer start_date end_date w = (answer, w @ [(start_date, end_date)])"

definition connection_lost :: exn where
  "connection_lost = Exn OtherException ''connection lost''"

text \<open>
  The dates of the entries flagged as trading days in what the calendar query returned:
  none when it returned \<open>None\<close> or an empty frame.
\<close>

definition trading_dates :: "dataframe option \<Rightarrow> string list" where
  "trading_dates answer =
     (case answer of
        None \<Rightarrow> []
      | Some df \<Rightarrow>
          if df_empty df then []
          else map (\<lambda>r. r ! day_col df) (filter (\<lambda>r. r ! flag_col df = ''1'') (rows df)))"

text \<open>
  An ISO date string: the text \<open>YYYY-MM-DD\<close> of a date of the calendar from the year
  1000 on, that is, the text \<open>strftime\<close> prints for the date it reads as.
\<close>

definition iso_date :: "string \<Rightarrow> bool" where
  "iso_date s =
     (let d = \<lparr>year = py_int (take 4 s), month = py_int (take 2 (drop 5 s)),
               day = py_int (drop 8 s)\<rparr>
      in valid_date d \<and> 1000 \<le> year d \<and> strftime d = s)"

text \<open>The flagged dates in the answer of a calendar query; none when it raised.\<close>

definition answered_dates :: "exn + dataframe option \<Rightarrow> string list" where
  "answered_dates answer = (case answer of Inl e \<Rightarrow> [] | Inr dfo \<Rightarrow> trading_dates dfo)"




section \<open>Properties\<close>

lemma str_nat_digit: "n < 10 \<Longrightarrow> str_nat n = [digit_char n]"
  by (simp add: str_nat.simps)

text \<open>
  C8. On 2025-01-10 the period \<open>recent\<close> starts on 2024-11-01 and ends on 2025-01-10, and
  the label reads 2024(year)11(month)-2025(year)1(month).
\<close>

theorem timeframe_recent_2025_01_10:
  "get_market_analysis_timeframe \<lparr>year = 2025, month = 1, day = 10\<rparr> ''recent'' =
     Inr (''2024'' @ nian @ ''11'' @ yue @ ''-2025'' @ nian @ ''1'' @ yue @
          '' (ISO: 2024-11-01 to 2025-01-10)'')"
  by code_simp

lemma error_string_prefix: "prefix ''Error: '' (error_string e)"
  by (cases "exn_class e") (simp_all add: error_string_def)

lemma eval_2025_02_13: "strftime \<lparr>year = 2025, month = 2, day = 13\<rparr> = ''2025-02-13''"
  by code_simp

lemma eval_2025_03_15: "strftime \<lparr>year = 2025, month = 3, day = 15\<rparr> = ''2025-03-15''"
  by code_simp

lemma eval_minus_30:
  "minus_days \<lparr>year = 2025, month = 3, day = 15\<rparr> 30 = Inr \<lparr>year = 2025, month = 2, day = 13\<rparr>"
  by (simp add: minus_days_def eval_nat_numeral prev_day_def get_month_end_day_def is_leap_def)

lemma sample_basic_info:
  "get_etf_basic_info (sample_ak held) ''510300'' [] =
     (Inr \<lparr>columns = [daima, mingcheng, zuixinjia, zhangdiefu, chengjiaoliang],
           rows = [[''510300'', ''HS300ETF'', ''4.01'', ''0.52'', ''1000'']]\<rparr>, [''spot''])"
  by (simp add: get_etf_basic_info_def get_etf_basic_info_try_def reraise_def sample_ak_def
      sample_quotes_def df_column_def df_where_def df_empty_def Let_def)

lemma sample_historical_data:
  "get_etf_historical_data (sample_ak held) ''510300'' ''2025-02-13'' ''2025-03-15'' None
     [''spot''] =
     (Inr sample_history, [''spot'', ''hist 510300 daily 2025-02-13 2025-03-15''])"
  by (simp add: get_etf_historical_data_def get_etf_historical_data_try_def reraise_def
      sample_ak_def arg_or_def sample_history_def df_empty_def)

lemma sample_holdings_found:
  "get_etf_holdings (sample_ak sample_holdings) ''510300'' None w =
     (Inr sample_holdings, w @ [''holdings 510300''])"
  by (simp add: get_etf_holdings_def get_etf_holdings_try_def reraise_def sample_ak_def
      df_empty_def sample_holdings_def)

lemma sample_holdings_not_found:
  "get_etf_holdings (sample_ak no_holdings) ''510300'' None w =
     (Inl (Exn NoDataFoundError (etf_not_found_1 @ ''510300'' @ holdings_not_found_2)),
      w @ [''holdings 510300''])"
  by (simp add: get_etf_holdings_def get_etf_holdings_try_def reraise_def sample_ak_def
      df_empty_def no_holdings_def)

text \<open>
  C1. \<open>get_etf_analysis\<close> fetches the basic info, the historical data from thirty days
  before today up to today, and the holdings, in this order. When the three fetches
  succeed it returns the three frames as one bundle. When one of them raises \<open>e\<close>, it
  raises a \<open>DataSourceError\<close> whose message is the fixed prefix followed by the text of
  \<open>e\<close>, and the later fetches are not made. Whatever it raises is a \<open>DataSourceError\<close>
  with that prefix, and a bundle it returns holds the results of three fetches that
  succeeded.
\<close>

theorem get_etf_analysis_bundle_or_data_source_error:
  "(get_etf_basic_info ak etf_code w = (Inr b, w1) \<and> minus_days now 30 = Inr start \<and>
    get_etf_historical_data ak etf_code (strftime start) (strftime now) None w1 = (Inr p, w2) \<and>
    get_etf_holdings ak etf_code None w2 = (Inr h, w3) \<longrightarrow>
      get_etf_analysis ak now etf_code w =
        (Inr \<lparr>basic_info = b, recent_performance = p, holdings = h\<rparr>, w3))
   \<and> (get_etf_basic_info ak etf_code w = (Inl e, w1) \<longrightarrow>
        get_etf_analysis ak now etf_code w =
          (Inl (Exn DataSourceError (analysis_failed @ exn_str e)), w1))
   \<and> (get_etf_basic_info ak etf_code w = (Inr b, w1) \<and> minus_days now 30 = Inr start \<and>
       get_etf_historical_data ak etf_code (strftime start) (strftime now) None w1 =
         (Inl e, w2) \<longrightarrow>
        get_etf_analysis ak now etf_code w =
          (Inl (Exn DataSourceError (analysis_failed @ exn_str e)), w2))
   \<and> (get_etf_basic_info ak etf_code w = (Inr b, w1) \<and> minus_days now 30 = Inr start \<and>
       get_etf_historical_data ak etf_code (strftime start) (strftime now) None w1 =
         (Inr p, w2) \<and>
       get_etf_holdings ak etf_code None w2 = (Inl e, w3) \<longrightarrow>
        get_etf_analysis ak now etf_code w =
          (Inl (Exn DataSourceError (analysis_failed @ exn_str e)), w3))
   \<and> (fst (get_etf_analysis ak now etf_code w) = Inl x \<longrightarrow>
        exn_class x = DataSourceError \<and> prefix analysis_failed (exn_str x))
   \<and> (fst (get_etf_analysis ak now etf_code w) = Inr a \<longrightarrow>
        (\<exists>w1 start w2 w3.
           get_etf_basic_info ak etf_code w = (Inr (basic_info a), w1) \<and>
           minus_days now 30 = Inr start \<and>
           get_etf_historical_data ak etf_code (strftime start) (strftime now) None w1 =
             (Inr (recent_performance a), w2) \<and>
           get_etf_holdings ak etf_code None w2 = (Inr (holdings a), w3)))"
  by (auto simp: get_etf_analysis_def get_etf_analysis_try_def reraise_def Let_def
      split: prod.splits sum.splits)

theorem get_etf_analysis_bundle_or_data_source_error_witness:
  "get_etf_analysis (sample_ak sample_holdings) \<lparr>year = 2025, month = 3, day = 15\<rparr>
     ''510300'' [] =
     (Inr \<lparr>basic_info = \<lparr>columns = [daima, mingcheng, zuixinjia, zhangdiefu, chengjiaoliang],
             rows = [[''510300'', ''HS300ETF'', ''4.01'', ''0.52'', ''1000'']]\<rparr>,
           recent_performance = sample_history, holdings = sample_holdings\<rparr>,
      [''spot'', ''hist 510300 daily 2025-02-13 2025-03-15'', ''holdings 510300''])
   \<and> get_etf_analysis (sample_ak no_holdings) \<lparr>year = 2025, month = 3, day = 15\<rparr>
     ''510300'' [] =
     (Inl (Exn DataSourceError
             (analysis_failed @ etf_not_found_1 @ ''510300'' @ holdings_not_found_2)),
      [''spot'', ''hist 510300 daily 2025-02-13 2025-03-15'', ''holdings 510300''])"
proof -
  let ?now = "\<lparr>year = 2025, month = 3, day = 15\<rparr>"
  let ?start = "\<lparr>year = 2025, month = 2, day = 13\<rparr>"
  let ?b = "\<lparr>columns = [daima, mingcheng, zuixinjia, zhangdiefu, chengjiaoliang],
             rows = [[''510300'', ''HS300ETF'', ''4.01'', ''0.52'', ''1000'']]\<rparr>"
  let ?w2 = "[''spot'', ''hist 510300 daily 2025-02-13 2025-03-15'']"
  have found:
    "get_etf_analysis (sample_ak sample_holdings) ?now ''510300'' [] =
       (Inr \<lparr>basic_info = ?b, recent_performance = sample_history,
             holdings = sample_holdings\<rparr>, ?w2 @ [''holdings 510300''])"
    using get_etf_analysis_bundle_or_data_source_error
      [where ak = "sample_ak sample_holdings" and etf_code = "''510300''" and w = "[]"
         and b = ?b and ?w1.0 = "[''spot'']" and now = ?now and start = ?start
         and p = sample_history and ?w2.0 = ?w2 and h = sample_holdings
         and ?w3.0 = "?w2 @ [''holdings 510300'']", THEN conjunct1]
      sample_basic_info [of sample_holdings] sample_historical_data [of sample_holdings]
      sample_holdings_found [of ?w2] eval_minus_30 eval_2025_02_13 eval_2025_03_15
    by simp
  have missing:
    "get_etf_analysis (sample_ak no_holdings) ?now ''510300'' [] =
       (Inl (Exn DataSourceError
               (analysis_failed @
                exn_str (Exn NoDataFoundError
                           (etf_not_found_1 @ ''510300'' @ holdings_not_found_2)))),
        ?w2 @ [''holdings 510300''])"
    using get_etf_analysis_bundle_or_data_source_error
      [where ak = "sample_ak no_holdings" and etf_code = "''510300''" and w = "[]"
         and b = ?b and ?w1.0 = "[''spot'']" and now = ?now and start = ?start
         and p = sample_history and ?w2.0 = ?w2
         and e = "Exn NoDataFoundError (etf_not_found_1 @ ''510300'' @ holdings_not_found_2)"
         and ?w3.0 = "?w2 @ [''holdings 510300'']",
         THEN conjunct2, THEN conjunct2, THEN conjunct2, THEN conjunct1]
      sample_basic_info [of no_holdings] sample_historical_data [of no_holdings]
      sample_holdings_not_found [of ?w2] eval_minus_30 eval_2025_02_13 eval_2025_03_15
    by simp
  from found missing show ?thesis by simp
qed

lemma unexpected_error_string_prefix: "prefix ''Error: '' (unexpected_error_string e)"
  by (simp add: unexpected_error_string_def)

lemma py_isdigit_2024: "py_isdigit ''2024''"
  by (simp add: py_isdigit_def is_digit_def)

text \<open>
  C2. Whatever its arguments, the data source and the renderer are,
  \<open>call_financial_data_tool\<close> returns a string: the text the renderer made of the frame
  the data source returned, or a text that starts with \<open>Error: \<close>. When the data source
  raises \<open>e\<close>, the string is the one the \<open>except\<close> clause of the class of \<open>e\<close> builds,
  and it starts with \<open>Error: \<close>.
\<close>

theorem call_financial_data_tool_table_or_error:
  "((\<exists>df w'. data_source_method code year' quarter w = (Inr df, w') \<and>
       fto df (arg_or format ''markdown'') (arg_or limit 250)
         [(''code'', MStr code), (''year'', MStr year'), (''quarter'', MInt quarter),
          (''dataset'', MStr data_type_name)] =
       Inr (fst (call_financial_data_tool fto tool_name data_source_method data_type_name
                   code year' quarter limit format w)))
    \<or> prefix ''Error: '' (fst (call_financial_data_tool fto tool_name data_source_method
                                  data_type_name code year' quarter limit format w)))
   \<and> (py_isdigit year' \<and> length year' = 4 \<and> 1 \<le> quarter \<and> quarter \<le> 4 \<and>
        data_source_method code year' quarter w = (Inl e, w1) \<longrightarrow>
        call_financial_data_tool fto tool_name data_source_method data_type_name
          code year' quarter limit format w = (error_string e, w1) \<and>
        prefix ''Error: '' (error_string e))"
  using error_string_prefix [of e]
  apply (simp add: call_financial_data_tool_def call_financial_data_tool_try_def try_except_def
      split: prod.splits sum.splits)
  apply (auto simp: error_string_prefix)
  done

theorem call_financial_data_tool_table_or_error_witness:
  "call_financial_data_tool show_cap ''get_profit_data''
     (recording_method (Inl (Exn LoginError ''no session''))) ''Profitability''
     ''sh.600000'' ''2024'' 1 None None [] =
     (''Error: Could not connect to data source. no session'', [(''sh.600000'', ''2024'', 1)])"
  using call_financial_data_tool_table_or_error
    [where data_source_method = "recording_method (Inl (Exn LoginError ''no session''))"
       and code = "''sh.600000''" and year' = "''2024''" and quarter = 1 and w = "[]"
       and e = "Exn LoginError ''no session''" and ?w1.0 = "[(''sh.600000'', ''2024'', 1)]"
       and fto = show_cap and tool_name = "''get_profit_data''"
       and data_type_name = "''Profitability''" and limit = None and format = None,
     THEN conjunct2]
    py_isdigit_2024
  by (simp add: recording_method_def error_string_def)



lemma base_tools_cap:
  "call_financial_data_tool fto tn m3 dn code year' quarter None format w =
     call_financial_data_tool fto tn m3 dn code year' quarter (Some 250) format w"
  "call_financial_data_tool fto tn m3 dn code year' quarter (Some n) format w =
     call_financial_data_tool (pin_cap n fto) tn m3 dn code year' quarter (Some n) format w"
  "call_macro_data_tool fto tn mm dn start_date end_date None format kwargs w =
     call_macro_data_tool fto tn mm dn start_date end_date (Some 250) format kwargs w"
  "call_macro_data_tool fto tn mm dn start_date end_date (Some n) format kwargs w =
     call_macro_data_tool (pin_cap n fto) tn mm dn start_date end_date (Some n) format kwargs w"
  "call_index_constituent_tool fto tn mi iname date None format w =
     call_index_constituent_tool fto tn mi iname date (Some 250) format w"
  "call_index_constituent_tool fto tn mi iname date (Some n) format w =
     call_index_constituent_tool (pin_cap n fto) tn mi iname date (Some n) format w"
  by (simp_all add: call_financial_data_tool_def call_financial_data_tool_try_def
      call_macro_data_tool_def call_index_constituent_tool_def arg_or_def pin_cap_def
      cong: prod.case_cong sum.case_cong option.case_cong if_cong)

lemma market_overview_tools_cap:
  "get_trade_dates fto ds start_date end_date None format w =
     get_trade_dates fto ds start_date end_date (Some 250) format w"
  "get_trade_dates fto ds start_date end_date (Some n) format w =
     get_trade_dates (pin_cap n fto) ds start_date end_date (Some n) format w"
  "get_all_stock fto ds date None format w = get_all_stock fto ds date (Some 250) format w"
  "get_all_stock fto ds date (Some n) format w =
     get_all_stock (pin_cap n fto) ds date (Some n) format w"
  "get_suspensions fto ds date None format w = get_suspensions fto ds date (Some 250) format w"
  "get_suspensions fto ds date (Some n) format w =
     get_suspensions (pin_cap n fto) ds date (Some n) format w"
  by (simp_all add: get_trade_dates_def get_all_stock_def get_suspensions_def arg_or_def
      pin_cap_def Let_def cong: prod.case_cong sum.case_cong option.case_cong if_cong)

lemma search_stocks_cap:
  "search_stocks fto sc ds keyword date None format w =
     search_stocks fto sc ds keyword date (Some 50) format w"
  "search_stocks fto sc ds keyword date (Some n) format w =
     search_stocks (pin_cap n fto) sc ds keyword date (Some n) format w"
  by (simp_all add: search_stocks_def arg_or_def pin_cap_def
      cong: prod.case_cong sum.case_cong option.case_cong if_cong)

lemma indices_tools_cap:
  "get_stock_industry fto ds code_opt date None format w =
     get_stock_industry fto ds code_opt date (Some 250) format w"
  "get_stock_industry fto ds code_opt date (Some n) format w =
     get_stock_industry (pin_cap n fto) ds code_opt date (Some n) format w"
  "get_sz50_stocks fto ds date None format w = get_sz50_stocks fto ds date (Some 250) format w"
  "get_sz50_stocks fto ds date (Some n) format w =
     get_sz50_stocks (pin_cap n fto) ds date (Some n) format w"
  "get_hs300_stocks fto ds date None format w = get_hs300_stocks fto ds date (Some 250) format w"
  "get_hs300_stocks fto ds date (Some n) format w =
     get_hs300_stocks (pin_cap n fto) ds date (Some n) format w"
  "get_zz500_stocks fto ds date None format w = get_zz500_stocks fto ds date (Some 250) format w"
  "get_zz500_stocks fto ds date (Some n) format w =
     get_zz500_stocks (pin_cap n fto) ds date (Some n) format w"
  "get_index_constituents fto ds index date None format w =
     get_index_constituents fto ds index date (Some 250) format w"
  "get_index_constituents fto ds index date (Some n) format w =
     get_index_constituents (pin_cap n fto) ds index date (Some n) format w"
  "get_industry_members fto ds industry date None format w =
     get_industry_members fto ds industry date (Some 250) format w"
  "get_industry_members fto ds industry date (Some n) format w =
     get_industry_members (pin_cap n fto) ds industry date (Some n) format w"
  by (simp_all add: get_stock_industry_def get_sz50_stocks_def get_hs300_stocks_def
      get_zz500_stocks_def get_index_constituents_def get_industry_members_def
      call_index_constituent_tool_def arg_or_def pin_cap_def Let_def
      cong: prod.case_cong sum.case_cong option.case_cong if_cong)

text \<open>
  C7, as stated, fails: \<open>search_stocks\<close> called without \<open>limit\<close> hands the renderer the row
  cap 50, not 250.
\<close>

theorem search_stocks_default_cap_is_50:
  "fst (search_stocks show_cap literal_contains sample_source ''600'' None None None []) =
     ''max_rows=50''
   \<and> fst (search_stocks show_cap literal_contains sample_source ''600'' None (Some 250) None []) =
     ''max_rows=250''"
proof -
  have "str_int 50 = ''50''" "str_int 250 = ''250''"
    by code_simp+
  moreover have "py_strip ''600'' \<noteq> []"
    by code_simp
  ultimately show ?thesis
    by (simp add: search_stocks_def try_except_def sample_source_def sample_stocks_def
        df_empty_def df_column_def literal_contains_def show_cap_def arg_or_def)
qed

text \<open>
  C7, amended. Every tool with a \<open>limit\<close> argument under \<open>src/tools\<close> uses 250 when the
  caller passes no limit, except \<open>search_stocks\<close>, which uses 50. Each of them hands its
  limit, and no other number, to the renderer as the row cap: its answer is the same when
  the renderer is replaced by one that sees the cap \<open>limit\<close> whatever it is passed.
\<close>

theorem limit_defaults_and_row_cap:
  "call_financial_data_tool fto tn m3 dn code year' quarter None format w =
     call_financial_data_tool fto tn m3 dn code year' quarter (Some 250) format w
   \<and> call_macro_data_tool fto tn mm dn start_date end_date None format kwargs w =
     call_macro_data_tool fto tn mm dn start_date end_date (Some 250) format kwargs w
   \<and> call_index_constituent_tool fto tn mi iname date None format w =
     call_index_constituent_tool fto tn mi iname date (Some 250) format w
   \<and> get_trade_dates fto ds start_date end_date None format w =
     get_trade_dates fto ds start_date end_date (Some 250) format w
   \<and> get_all_stock fto ds date None format w = get_all_stock fto ds date (Some 250) format w
   \<and> get_suspensions fto ds date None format w = get_suspensions fto ds date (Some 250) format w
   \<and> get_stock_industry fto ds code_opt date None format w =
     get_stock_industry fto ds code_opt date (Some 250) format w
   \<and> get_sz50_stocks fto ds date None format w = get_sz50_stocks fto ds date (Some 250) format w
   \<and> get_hs300_stocks fto ds date None format w =
     get_hs300_stocks fto ds date (Some 250) format w
   \<and> get_zz500_stocks fto ds date None format w =
     get_zz500_stocks fto ds date (Some 250) format w
   \<and> get_index_constituents fto ds index date None format w =
     get_index_constituents fto ds index date (Some 250) format w
   \<and> get_industry_members fto ds industry date None format w =
     get_industry_members fto ds industry date (Some 250) format w
   \<and> search_stocks fto sc ds keyword date None format w =
     search_stocks fto sc ds keyword date (Some 50) format w
   \<and> call_financial_data_tool fto tn m3 dn code year' quarter (Some n) format w =
     call_financial_data_tool (pin_cap n fto) tn m3 dn code year' quarter (Some n) format w
   \<and> call_macro_data_tool fto tn mm dn start_date end_date (Some n) format kwargs w =
     call_macro_data_tool (pin_cap n fto) tn mm dn start_date end_date (Some n) format kwargs w
   \<and> call_index_constituent_tool fto tn mi iname date (Some n) format w =
     call_index_constituent_tool (pin_cap n fto) tn mi iname date (Some n) format w
   \<and> get_trade_dates fto ds start_date end_date (Some n) format w =
     get_trade_dates (pin_cap n fto) ds start_date end_date (Some n) format w
   \<and> get_all_stock fto ds date (Some n) format w =
     get_all_stock (pin_cap n fto) ds date (Some n) format w
   \<and> get_suspensions fto ds date (Some n) format w =
     get_suspensions (pin_cap n fto) ds date (Some n) format w
   \<and> get_stock_industry fto ds code_opt date (Some n) format w =
     get_stock_industry (pin_cap n fto) ds code_opt date (Some n) format w
   \<and> get_sz50_stocks fto ds date (Some n) format w =
     get_sz50_stocks (pin_cap n fto) ds date (Some n) format w
   \<and> get_hs300_stocks fto ds date (Some n) format w =
     get_hs300_stocks (pin_cap n fto) ds date (Some n) format w
   \<and> get_zz500_stocks fto ds date (Some n) format w =
     get_zz500_stocks (pin_cap n fto) ds date (Some n) format w
   \<and> get_index_constituents fto ds index date (Some n) format w =
     get_index_constituents (pin_cap n fto) ds index date (Some n) format w
   \<and> get_industry_members fto ds industry date (Some n) format w =
     get_industry_members (pin_cap n fto) ds industry date (Some n) format w
   \<and> search_stocks fto sc ds keyword date (Some n) format w =
     search_stocks (pin_cap n fto) sc ds keyword date (Some n) format w"
  by (intro conjI base_tools_cap market_overview_tools_cap search_stocks_cap indices_tools_cap)

theorem limit_defaults_and_row_cap_witness:
  "fst (get_suspensions show_cap sample_source None None None []) = ''max_rows=250''"
proof -
  have "str_int 250 = ''250''"
    by code_simp
  then have "fst (get_suspensions show_cap sample_source None (Some 250) None []) =
      ''max_rows=250''"
    by (simp add: get_suspensions_def try_except_def sample_source_def sample_stocks_def
        df_empty_def show_cap_def arg_or_def Let_def)
  with limit_defaults_and_row_cap
    [where fto = show_cap and ds = sample_source and date = None and format = None
       and w = "[]"]
  show ?thesis by simp
qed

text \<open>
  C9. With the \<open>re\<close> module of CPython 3.11 or later, \<open>normalize_stock_code\<close> does not
  turn \<open>600000\<close> into \<open>sh.600000\<close>: the second pattern, which is tried when the first
  does not match, fails to compile, and the tool answers with the text of that error.
\<close>

theorem normalize_stock_code_600000_strict_flags:
  "normalize_stock_code Flags_at_start_only ''600000'' =
     ''Error: global flags not at the start of the expression at position 12''"
  by code_simp

text \<open>The same holds for \<open>000001.SZ\<close>; \<open>xx1234\<close> gets an error text as well.\<close>

lemma normalize_stock_code_strict_flags_others:
  "normalize_stock_code Flags_at_start_only ''000001.SZ'' =
     ''Error: global flags not at the start of the expression at position 12''"
  "normalize_stock_code Flags_at_start_only ''xx1234'' =
     ''Error: global flags not at the start of the expression at position 12''"
  "normalize_stock_code Flags_at_start_only ''sh600000'' = ''sh.600000''"
  by code_simp+

text \<open>
  With the \<open>re\<close> module of CPython 3.10 or earlier the three inputs of the scenario give
  what the docstring of the tool promises.
\<close>

lemma normalize_stock_code_flags_anywhere:
  "normalize_stock_code Flags_anywhere ''600000'' = ''sh.600000''"
  "normalize_stock_code Flags_anywhere ''000001.SZ'' = ''sz.000001''"
  "prefix ''Error:'' (normalize_stock_code Flags_anywhere ''xx1234'')"
  by code_simp+













lemma eval_strptime_2025_01_03:
  "strptime ''2025-01-03'' = Inr \<lparr>year = 2025, month = 1, day = 3\<rparr>"
  by code_simp


lemma eval_minus_30_jan_3:
  "minus_days \<lparr>year = 2025, month = 1, day = 3\<rparr> 30 = Inr \<lparr>year = 2024, month = 12, day = 4\<rparr>"
  by (simp add: minus_days_def eval_nat_numeral prev_day_def get_month_end_day_def is_leap_def)

lemma eval_plus_30_jan_3:
  "plus_days \<lparr>year = 2025, month = 1, day = 3\<rparr> 30 = Inr \<lparr>year = 2025, month = 2, day = 2\<rparr>"
  by (simp add: plus_days_def eval_nat_numeral next_day_def get_month_end_day_def is_leap_def)


lemma eval_2024_12_04: "strftime \<lparr>year = 2024, month = 12, day = 4\<rparr> = ''2024-12-04''"
  by code_simp

lemma eval_2025_02_02: "strftime \<lparr>year = 2025, month = 2, day = 2\<rparr> = ''2025-02-02''"
  by code_simp

lemma sample_trading_dates:
  "trading_dates (Some sample_calendar) = [''2025-01-02'', ''2025-01-03'', ''2025-01-06'']"
  by code_simp



lemma sample_max: "Max (set [''2025-01-02'', ''2025-01-03'']) = ''2025-01-03''"
  by code_simp


text \<open>
  C4, as stated, fails: when the calendar query raises, \<open>is_trading_day\<close> does not answer
  \<open>No\<close> and \<open>previous_trading_day\<close> and \<open>next_trading_day\<close> do not return their input;
  each returns \<open>Error: \<close> followed by the text of the exception.
\<close>

theorem calendar_query_raises_error_text:
  "is_trading_day (recording_calendar (Inl connection_lost)) ''2025-01-03'' [] =
     (''Error: connection lost'', [(Some ''2025-01-03'', Some ''2025-01-03'')])
   \<and> previous_trading_day (recording_calendar (Inl connection_lost)) ''2025-01-03'' [] =
     (''Error: connection lost'', [(Some ''2024-12-04'', Some ''2025-01-03'')])
   \<and> next_trading_day (recording_calendar (Inl connection_lost)) ''2025-01-03'' [] =
     (''Error: connection lost'', [(Some ''2025-01-03'', Some ''2025-02-02'')])
   \<and> ''Error: connection lost'' \<noteq> ''No'' \<and> ''Error: connection lost'' \<noteq> ''2025-01-03''"
  using eval_strptime_2025_01_03 eval_minus_30_jan_3 eval_plus_30_jan_3 eval_2024_12_04
    eval_2025_02_02
  by (simp add: is_trading_day_def is_trading_day_try_def previous_trading_day_def
      previous_trading_day_try_def next_trading_day_def next_trading_day_try_def
      try_except_def error_colon_def recording_calendar_def connection_lost_def)

text \<open>
  C4, amended. When the calendar query raises \<open>e\<close>, each of \<open>is_trading_day\<close>,
  \<open>previous_trading_day\<close> and \<open>next_trading_day\<close> returns the text \<open>Error: \<close> followed by
  the text of \<open>e\<close>. More generally, whatever is raised inside the \<open>try\<close> of one of the
  three tools, and of \<open>get_latest_trading_date\<close>, is answered with a text and does not
  leave the tool.
\<close>

theorem calendar_tools_catch_every_exception:
  "(get_trade_dates_of (Some date) (Some date) w = (Inl e, w') \<longrightarrow>
      is_trading_day get_trade_dates_of date w = (''Error: '' @ exn_str e, w'))
   \<and> (strptime date = Inr d \<and> minus_days d 30 = Inr s \<and>
       get_trade_dates_of (Some (strftime s)) (Some date) w = (Inl e, w') \<longrightarrow>
      previous_trading_day get_trade_dates_of date w = (''Error: '' @ exn_str e, w'))
   \<and> (strptime date = Inr d \<and> plus_days d 30 = Inr s \<and>
       get_trade_dates_of (Some date) (Some (strftime s)) w = (Inl e, w') \<longrightarrow>
      next_trading_day get_trade_dates_of date w = (''Error: '' @ exn_str e, w'))
   \<and> (is_trading_day_try get_trade_dates_of date w = (Inl e, w') \<longrightarrow>
      is_trading_day get_trade_dates_of date w = (''Error: '' @ exn_str e, w'))
   \<and> (previous_trading_day_try get_trade_dates_of date w = (Inl e, w') \<longrightarrow>
      previous_trading_day get_trade_dates_of date w = (''Error: '' @ exn_str e, w'))
   \<and> (next_trading_day_try get_trade_dates_of date w = (Inl e, w') \<longrightarrow>
      next_trading_day get_trade_dates_of date w = (''Error: '' @ exn_str e, w'))
   \<and> (get_latest_trading_date_try get_trade_dates_of now w = (Inl e, w') \<longrightarrow>
      get_latest_trading_date get_trade_dates_of now w = (strftime now, w'))"
  by (simp add: is_trading_day_def is_trading_day_try_def previous_trading_day_def
      previous_trading_day_try_def next_trading_day_def next_trading_day_try_def
      get_latest_trading_date_def try_except_def error_colon_def)

theorem calendar_tools_catch_every_exception_witness:
  "previous_trading_day (recording_calendar (Inl connection_lost)) ''2025-01-03'' [] =
     (''Error: connection lost'', [(Some ''2024-12-04'', Some ''2025-01-03'')])"
  using calendar_tools_catch_every_exception
    [where date = "''2025-01-03''" and d = "\<lparr>year = 2025, month = 1, day = 3\<rparr>"
       and s = "\<lparr>year = 2024, month = 12, day = 4\<rparr>"
       and get_trade_dates_of = "recording_calendar (Inl connection_lost)"
       and w = "[]" and e = connection_lost
       and w' = "[(Some ''2024-12-04'', Some ''2025-01-03'')]",
     THEN conjunct2, THEN conjunct1]
    eval_strptime_2025_01_03 eval_minus_30_jan_3 eval_2024_12_04
  by (simp add: recording_calendar_def connection_lost_def)

lemma index_of_None: "index_of x xs = None \<longleftrightarrow> x \<notin> set xs"
  by (induction xs) (auto split: option.splits)

lemma index_of_Some: "x \<in> set xs \<Longrightarrow> \<exists>i. index_of x xs = Some i"
  using index_of_None [of x xs] by (cases "index_of x xs") auto

lemma Max_insert_below:
  assumes "finite S" and "x \<le> a"
  shows "Max (insert x (insert a S)) = Max (insert a S)"
proof -
  have "a \<le> Max (insert a S)"
    using assms(1) by (intro Max_ge) simp_all
  with assms(2) have le: "x \<le> Max (insert a S)"
    by (rule order_trans)
  have "Max (insert x (insert a S)) = max x (Max (insert a S))"
    using assms(1) by (intro Max_insert) simp_all
  with le show ?thesis
    by (simp only: max_absorb2)
qed

lemma fold_latest_step:
  "fold (latest_step today) xs acc =
     (case acc of
        None \<Rightarrow>
          (if filter (\<lambda>x. x \<le> today) xs = [] then None
           else Some (Max (set (filter (\<lambda>x. x \<le> today) xs))))
      | Some a \<Rightarrow> Some (Max (insert a (set (filter (\<lambda>x. x \<le> today) xs)))))"
proof (induction xs arbitrary: acc)
  case Nil
  then show ?case by (simp split: option.splits)
next
  case (Cons x xs)
  let ?c = "filter (\<lambda>x. x \<le> today) xs"
  have unfold: "fold (latest_step today) (x # xs) acc =
      fold (latest_step today) xs (latest_step today x acc)"
    by simp
  show ?case
  proof (cases "x \<le> today")
    case False
    then have "latest_step today x acc = acc"
      by (simp add: latest_step_def)
    with False show ?thesis
      unfolding unfold using Cons [of acc] by (simp split: option.splits)
  next
    case True
    show ?thesis
    proof (cases acc)
      case None
      with True have "latest_step today x acc = Some x"
        by (simp add: latest_step_def)
      with True None show ?thesis
        unfolding unfold using Cons [of "Some x"] by simp
    next
      case (Some a)
      show ?thesis
      proof (cases "a < x")
        case less: True
        then have "a \<le> x"
          by simp
        then have "Max (insert a (insert x (set ?c))) = Max (insert x (set ?c))"
          by (intro Max_insert_below) simp_all
        moreover from True Some less have "latest_step today x acc = Some x"
          by (simp add: latest_step_def)
        ultimately show ?thesis
          unfolding unfold using Cons [of "Some x"] True Some by simp
      next
        case notless: False
        then have "x \<le> a"
          by simp
        then have "Max (insert x (insert a (set ?c))) = Max (insert a (set ?c))"
          by (intro Max_insert_below) simp_all
        then have "Max (insert a (insert x (set ?c))) = Max (insert a (set ?c))"
          by (simp only: insert_commute)
        moreover from True Some notless have "latest_step today x acc = Some a"
          by (simp add: latest_step_def)
        ultimately show ?thesis
          unfolding unfold using Cons [of "Some a"] True Some by simp
      qed
    qed
  qed
qed

lemma latest_truthy:
  fixes today :: string
  shows "(case (if filter (\<lambda>x. x \<le> today) ds = [] then None
                else Some (Max (set (filter (\<lambda>x. x \<le> today) ds)))) of
            None \<Rightarrow> today
          | Some l \<Rightarrow> if l \<noteq> [] then l else today) =
         (if filter (\<lambda>x. x \<noteq> [] \<and> x \<le> today) ds = [] then today
          else Max (set (filter (\<lambda>x. x \<noteq> [] \<and> x \<le> today) ds)))"
proof (cases "filter (\<lambda>x. x \<le> today) ds = []")
  case True
  then have "filter (\<lambda>x. x \<noteq> [] \<and> x \<le> today) ds = []"
    by (simp add: filter_empty_conv)
  with True show ?thesis by simp
next
  case False
  let ?c = "set (filter (\<lambda>x. x \<le> today) ds)"
  let ?u = "set (filter (\<lambda>x. x \<noteq> [] \<and> x \<le> today) ds)"
  have fin: "finite ?c"
    by simp
  have ne: "?c \<noteq> {}"
    using False by (simp only: set_empty not_False_eq_True)
  from fin ne have in_c: "Max ?c \<in> ?c"
    by (rule Max_in)
  show ?thesis
  proof (cases "Max ?c = []")
    case True
    have "x = []" if "x \<in> ?c" for x
    proof -
      from fin that have "x \<le> Max ?c" by (rule Max_ge)
      with True show ?thesis by simp
    qed
    then have "filter (\<lambda>x. x \<noteq> [] \<and> x \<le> today) ds = []"
      by (simp add: filter_empty_conv) blast
    with False True show ?thesis by simp
  next
    case nonempty: False
    with in_c have in_u: "Max ?c \<in> ?u"
      by simp
    have "Max ?u = Max ?c"
    proof (rule Max_eqI)
      show "finite ?u" by simp
      show "y \<le> Max ?c" if "y \<in> ?u" for y
      proof -
        from that have "y \<in> ?c" by simp
        with fin show ?thesis by (rule Max_ge)
      qed
      show "Max ?c \<in> ?u" by (rule in_u)
    qed
    moreover have "?u \<noteq> {}"
    proof
      assume "?u = {}"
      with in_u have "Max ?c \<in> {}"
        by (simp only:)
      then show False
        by (simp only: empty_iff)
    qed
    then have "filter (\<lambda>x. x \<noteq> [] \<and> x \<le> today) ds \<noteq> []"
      by (simp only: set_empty not_False_eq_True)
    ultimately show ?thesis
      using False nonempty by simp
  qed
qed

lemma valid_trading_days_eq:
  assumes "index_of ''is_trading_day'' (columns df) = Some i"
    and "index_of ''calendar_date'' (columns df) = Some j"
  shows "map (\<lambda>r. r ! j) (rows (df_where (\<lambda>r. r ! i = ''1'') df)) = trading_dates (Some df)"
proof -
  from assms(1) have "columns df \<noteq> []"
    by auto
  with assms show ?thesis
    by (auto simp: trading_dates_def flag_col_def day_col_def df_where_def df_empty_def)
qed

lemma strftime_nonempty: "strftime d \<noteq> []"
  by (simp add: strftime_def)

text \<open>What \<open>get_latest_trading_date\<close> returns when the frame has the two columns.\<close>

lemma get_latest_trading_date_found:
  assumes "get_trade_dates_of (Some (strftime (now\<lparr>day := 1\<rparr>)))
             (Some (strftime (now\<lparr>day := 28\<rparr>))) w = (Inr (Some df), w')"
    and "''is_trading_day'' \<in> set (columns df)" and "''calendar_date'' \<in> set (columns df)"
  shows "get_latest_trading_date get_trade_dates_of now w =
           (if filter (\<lambda>x. x \<noteq> [] \<and> x \<le> strftime now) (trading_dates (Some df)) = []
            then strftime now
            else Max (set (filter (\<lambda>x. x \<noteq> [] \<and> x \<le> strftime now)
                             (trading_dates (Some df)))), w')"
proof -
  from index_of_Some [OF assms(2)]
  obtain i where i: "index_of ''is_trading_day'' (columns df) = Some i"
    by (erule exE)
  from index_of_Some [OF assms(3)]
  obtain j where j: "index_of ''calendar_date'' (columns df) = Some j"
    by (erule exE)
  let ?ds = "trading_dates (Some df)"
  let ?today = "strftime now"
  have cols: "df_column df ''is_trading_day'' = Inr i" "df_column df ''calendar_date'' = Inr j"
    using i j by (simp_all add: df_column_def)
  have "get_latest_trading_date_try get_trade_dates_of now w =
      (case fold (latest_step ?today) ?ds None of
         None \<Rightarrow> (Inr ?today, w')
       | Some l \<Rightarrow> if l \<noteq> [] then (Inr l, w') else (Inr ?today, w'))"
    unfolding get_latest_trading_date_try_def Let_def
    by (simp only: assms(1) cols valid_trading_days_eq [OF i j] prod.case sum.case option.case)
  then have "get_latest_trading_date get_trade_dates_of now w =
      (case fold (latest_step ?today) ?ds None of
         None \<Rightarrow> ?today
       | Some l \<Rightarrow> if l \<noteq> [] then l else ?today, w')"
    unfolding get_latest_trading_date_def try_except_def
    by (simp split: option.splits)
  also have "fold (latest_step ?today) ?ds None =
      (if filter (\<lambda>x. x \<le> ?today) ?ds = [] then None
       else Some (Max (set (filter (\<lambda>x. x \<le> ?today) ?ds))))"
    by (simp only: fold_latest_step option.case)
  also have "(case (if filter (\<lambda>x. x \<le> ?today) ?ds = [] then None
                    else Some (Max (set (filter (\<lambda>x. x \<le> ?today) ?ds)))) of
         None \<Rightarrow> ?today
       | Some l \<Rightarrow> if l \<noteq> [] then l else ?today) =
      (if filter (\<lambda>x. x \<noteq> [] \<and> x \<le> ?today) ?ds = [] then ?today
       else Max (set (filter (\<lambda>x. x \<noteq> [] \<and> x \<le> ?today) ?ds)))"
    by (rule latest_truthy)
  finally show ?thesis .
qed

text \<open>In every case the tool returns today's date or one of the flagged dates.\<close>

lemma get_latest_trading_date_cases:
  "fst (get_latest_trading_date get_trade_dates_of now w) = strftime now
   \<or> (\<exists>df. fst (get_trade_dates_of (Some (strftime (now\<lparr>day := 1\<rparr>)))
                  (Some (strftime (now\<lparr>day := 28\<rparr>))) w) = Inr (Some df) \<and>
        fst (get_latest_trading_date get_trade_dates_of now w) \<in>
          set (filter (\<lambda>x. x \<noteq> [] \<and> x \<le> strftime now) (trading_dates (Some df))))"
proof -
  let ?q = "get_trade_dates_of (Some (strftime (now\<lparr>day := 1\<rparr>)))
              (Some (strftime (now\<lparr>day := 28\<rparr>))) w"
  obtain answer w' where q: "?q = (answer, w')"
    by (cases ?q)
  show ?thesis
  proof (cases answer)
    case (Inl e)
    with q show ?thesis
      by (simp add: get_latest_trading_date_def get_latest_trading_date_try_def try_except_def)
  next
    case (Inr dfo)
    show ?thesis
    proof (cases dfo)
      case None
      with q Inr show ?thesis
        by (simp add: get_latest_trading_date_def get_latest_trading_date_try_def
            try_except_def)
    next
      case (Some df)
      show ?thesis
      proof (cases "''is_trading_day'' \<in> set (columns df) \<and>
                    ''calendar_date'' \<in> set (columns df)")
        case True
        let ?u = "filter (\<lambda>x. x \<noteq> [] \<and> x \<le> strftime now) (trading_dates (Some df))"
        have r: "fst (get_latest_trading_date get_trade_dates_of now w) =
            (if ?u = [] then strftime now else Max (set ?u))"
          using get_latest_trading_date_found [of get_trade_dates_of now w df w'] q Inr Some True
          by simp
        show ?thesis
        proof (cases "?u = []")
          case True
          with r show ?thesis by simp
        next
          case False
          then have "set ?u \<noteq> {}"
            by (simp only: set_empty not_False_eq_True)
          then have "Max (set ?u) \<in> set ?u"
            by (intro Max_in finite_set)
          with r False q Inr Some show ?thesis
            by simp
        qed
      next
        case False
        then have "index_of ''is_trading_day'' (columns df) = None \<or>
            index_of ''calendar_date'' (columns df) = None"
          by (simp add: index_of_None)
        with q Inr Some show ?thesis
          by (auto simp: get_latest_trading_date_def get_latest_trading_date_try_def
              try_except_def df_column_def split: option.splits)
      qed
    qed
  qed
qed

lemma get_latest_trading_date_world:
  "snd (get_latest_trading_date get_trade_dates_of now w) =
     snd (get_trade_dates_of (Some (strftime (now\<lparr>day := 1\<rparr>)))
            (Some (strftime (now\<lparr>day := 28\<rparr>))) w)"
proof -
  obtain answer w' where
    "get_trade_dates_of (Some (strftime (now\<lparr>day := 1\<rparr>)))
       (Some (strftime (now\<lparr>day := 28\<rparr>))) w = (answer, w')"
    by (cases "get_trade_dates_of (Some (strftime (now\<lparr>day := 1\<rparr>)))
                 (Some (strftime (now\<lparr>day := 28\<rparr>))) w")
  then show ?thesis
    by (simp add: get_latest_trading_date_def get_latest_trading_date_try_def try_except_def
        Let_def split: sum.splits option.splits)
qed

lemma get_latest_trading_date_raised:
  assumes "fst (get_trade_dates_of (Some (strftime (now\<lparr>day := 1\<rparr>)))
                  (Some (strftime (now\<lparr>day := 28\<rparr>))) w) = Inl e"
  shows "fst (get_latest_trading_date get_trade_dates_of now w) = strftime now"
proof -
  obtain answer w' where
    "get_trade_dates_of (Some (strftime (now\<lparr>day := 1\<rparr>)))
       (Some (strftime (now\<lparr>day := 28\<rparr>))) w = (answer, w')"
    by (cases "get_trade_dates_of (Some (strftime (now\<lparr>day := 1\<rparr>)))
                 (Some (strftime (now\<lparr>day := 28\<rparr>))) w")
  with assms show ?thesis
    by (simp add: get_latest_trading_date_def get_latest_trading_date_try_def try_except_def)
qed

lemma str_nat_ge_10: "10 \<le> n \<Longrightarrow> str_nat n = str_nat (n div 10) @ [digit_char (n mod 10)]"
  by (subst str_nat.simps) simp

lemma str_nat_2_digits:
  assumes "10 \<le> n" and "n < 100"
  shows "str_nat n = [digit_char (n div 10), digit_char (n mod 10)]"
proof -
  from assms have "n div 10 < 10"
    by simp
  with assms(1) show ?thesis
    by (simp add: str_nat_ge_10 str_nat_digit)
qed

lemma str_nat_4_digits:
  assumes "1000 \<le> n" and "n < 10000"
  shows "str_nat n =
           [digit_char (n div 1000), digit_char (n div 100 mod 10),
            digit_char (n div 10 mod 10), digit_char (n mod 10)]"
proof -
  have a: "str_nat n = str_nat (n div 10) @ [digit_char (n mod 10)]"
    using assms by (intro str_nat_ge_10) simp
  have b: "str_nat (n div 10) = str_nat (n div 100) @ [digit_char (n div 10 mod 10)]"
    using assms str_nat_ge_10 [of "n div 10"] by (simp add: div_mult2_eq [symmetric])
  have c: "str_nat (n div 100) = str_nat (n div 1000) @ [digit_char (n div 100 mod 10)]"
    using assms str_nat_ge_10 [of "n div 100"] by (simp add: div_mult2_eq [symmetric])
  have d: "str_nat (n div 1000) = [digit_char (n div 1000)]"
    using assms by (intro str_nat_digit) simp
  show ?thesis
    by (simp add: a b c d)
qed

lemma of_char_digit_char: "k < 10 \<Longrightarrow> of_char (digit_char k) = 48 + k"
  by (simp add: digit_char_def)

lemma digit_char_not_space: "k < 10 \<Longrightarrow> \<not> py_isspace (digit_char k)"
  by (simp add: py_isspace_def of_char_digit_char)

lemma py_int_2_digits:
  assumes "a < 10" and "b < 10"
  shows "py_int [digit_char a, digit_char b] = int (10 * a + b)"
  using assms
  by (simp add: py_int_def py_strip_def digit_char_not_space of_char_digit_char)

lemma py_int_4_digits:
  assumes "a < 10" and "b < 10" and "c < 10" and "e < 10"
  shows "py_int [digit_char a, digit_char b, digit_char c, digit_char e] =
           int (1000 * a + 100 * b + 10 * c + e)"
  using assms
  by (simp add: py_int_def py_strip_def digit_char_not_space of_char_digit_char)

lemma digit_char_0: "digit_char 0 = CHR ''0''"
  by code_simp

lemma fmt_02d_2_digits:
  assumes "0 \<le> m" and "m < 100"
  shows "fmt_02d m = [digit_char (nat m div 10), digit_char (nat m mod 10)]"
proof (cases "m < 10")
  case True
  with assms have "nat m < 10" "nat m div 10 = 0" "nat m mod 10 = nat m"
    by simp_all
  with True assms show ?thesis
    by (simp add: fmt_02d_def str_nat_digit digit_char_0)
next
  case False
  with assms have "10 \<le> nat m" "nat m < 100"
    by simp_all
  with False assms show ?thesis
    by (simp add: fmt_02d_def str_nat_2_digits)
qed

lemma decimal_digits_4:
  "1000 * (n div 1000) + 100 * (n div 100 mod 10) + 10 * (n div 10 mod 10) + n mod 10 = (n::nat)"
proof -
  define q1 q2 q3 r0 r1 r2 where
    "q1 = n div 10" and "q2 = n div 100" and "q3 = n div 1000" and
    "r0 = n mod 10" and "r1 = n div 10 mod 10" and "r2 = n div 100 mod 10"
  note defs = this
  have "n div 10 div 10 = n div 100" "n div 100 div 10 = n div 1000"
    by (simp_all add: div_mult2_eq [symmetric])
  then have "q1 div 10 = q2" "q2 div 10 = q3"
    by (simp_all add: defs)
  moreover have "10 * (n div 10) + n mod 10 = n" "10 * (q1 div 10) + q1 mod 10 = q1"
    "10 * (q2 div 10) + q2 mod 10 = q2"
    by simp_all
  ultimately have "10 * q1 + r0 = n" "10 * q2 + r1 = q1" "10 * q3 + r2 = q2"
    by (simp_all add: defs)
  then have "1000 * q3 + 100 * r2 + 10 * r1 + r0 = n"
    by linarith
  then show ?thesis
    by (simp only: defs)
qed

lemma get_month_end_day_le_31: "get_month_end_day y m \<le> 31"
  by (simp add: get_month_end_day_def)

lemma strftime_iso_date:
  assumes "valid_date d" and "1000 \<le> year d"
  shows "iso_date (strftime d)"
proof -
  let ?y = "nat (year d)" and ?m = "nat (month d)" and ?dd = "nat (day d)"
  from assms have y: "1000 \<le> ?y" "?y < 10000"
    by (auto simp: valid_date_def)
  from assms have m: "0 \<le> month d" "month d < 100"
    by (auto simp: valid_date_def)
  from assms get_month_end_day_le_31 [of "year d" "month d"]
  have dd: "0 \<le> day d" "day d < 100"
    by (auto simp: valid_date_def)
  have ys: "str_int (year d) =
      [digit_char (?y div 1000), digit_char (?y div 100 mod 10),
       digit_char (?y div 10 mod 10), digit_char (?y mod 10)]"
    using assms y by (simp add: str_int_def str_nat_4_digits)
  have ms: "fmt_02d (month d) = [digit_char (?m div 10), digit_char (?m mod 10)]"
    using m by (rule fmt_02d_2_digits)
  have ds: "fmt_02d (day d) = [digit_char (?dd div 10), digit_char (?dd mod 10)]"
    using dd by (rule fmt_02d_2_digits)
  have shape: "strftime d =
      [digit_char (?y div 1000), digit_char (?y div 100 mod 10),
       digit_char (?y div 10 mod 10), digit_char (?y mod 10), CHR ''-'',
       digit_char (?m div 10), digit_char (?m mod 10), CHR ''-'',
       digit_char (?dd div 10), digit_char (?dd mod 10)]"
    by (simp add: strftime_def ys ms ds)
  have py: "py_int (take 4 (strftime d)) = year d"
  proof -
    have "py_int (take 4 (strftime d)) =
        int (1000 * (?y div 1000) + 100 * (?y div 100 mod 10) + 10 * (?y div 10 mod 10) +
             ?y mod 10)"
      using y by (simp add: shape py_int_4_digits)
    also have "1000 * (?y div 1000) + 100 * (?y div 100 mod 10) + 10 * (?y div 10 mod 10) +
        ?y mod 10 = ?y"
      by (rule decimal_digits_4)
    finally show ?thesis
      using y by simp
  qed
  have pm: "py_int (take 2 (drop 5 (strftime d))) = month d"
  proof -
    have "py_int (take 2 (drop 5 (strftime d))) = int (10 * (?m div 10) + ?m mod 10)"
      using m by (simp add: shape py_int_2_digits)
    then show ?thesis
      using m by simp
  qed
  have pd: "py_int (drop 8 (strftime d)) = day d"
  proof -
    have "py_int (drop 8 (strftime d)) = int (10 * (?dd div 10) + ?dd mod 10)"
      using dd by (simp add: shape py_int_2_digits)
    then show ?thesis
      using dd by simp
  qed
  have same: "\<lparr>year = year d, month = month d, day = day d\<rparr> = d"
    by simp
  show ?thesis
    unfolding iso_date_def Let_def py pm pd same using assms by simp
qed

text \<open>
  C5. \<open>get_latest_trading_date\<close> makes one calendar query, from the first day of the
  current month to its day 28. When the query returns a frame with the two columns, the
  tool returns the greatest of the dates flagged as trading days that are not after today
  (and not the empty text), and today's date when there is none; when the query raises
  it returns today's date. What it returns is never empty and never after today, and it
  is an ISO date string whenever today's year has four digits and the flagged dates of
  the calendar are ISO date strings. Dates are compared as the source compares them, as
  strings.
\<close>

theorem get_latest_trading_date_latest_or_today:
  "snd (get_latest_trading_date get_trade_dates_of now w) =
     snd (get_trade_dates_of (Some (strftime (now\<lparr>day := 1\<rparr>)))
            (Some (strftime (now\<lparr>day := 28\<rparr>))) w)
   \<and> (get_trade_dates_of (Some (strftime (now\<lparr>day := 1\<rparr>)))
         (Some (strftime (now\<lparr>day := 28\<rparr>))) w = (Inr (Some df), w') \<and>
       ''is_trading_day'' \<in> set (columns df) \<and> ''calendar_date'' \<in> set (columns df) \<longrightarrow>
       get_latest_trading_date get_trade_dates_of now w =
         (if filter (\<lambda>x. x \<noteq> [] \<and> x \<le> strftime now) (trading_dates (Some df)) = []
          then strftime now
          else Max (set (filter (\<lambda>x. x \<noteq> [] \<and> x \<le> strftime now)
                           (trading_dates (Some df)))), w'))
   \<and> (fst (get_trade_dates_of (Some (strftime (now\<lparr>day := 1\<rparr>)))
              (Some (strftime (now\<lparr>day := 28\<rparr>))) w) = Inl e \<longrightarrow>
       fst (get_latest_trading_date get_trade_dates_of now w) = strftime now)
   \<and> fst (get_latest_trading_date get_trade_dates_of now w) \<noteq> []
   \<and> fst (get_latest_trading_date get_trade_dates_of now w) \<le> strftime now
   \<and> (valid_date now \<and> 1000 \<le> year now \<and>
       list_all iso_date
         (answered_dates (fst (get_trade_dates_of (Some (strftime (now\<lparr>day := 1\<rparr>)))
                                 (Some (strftime (now\<lparr>day := 28\<rparr>))) w))) \<longrightarrow>
       iso_date (fst (get_latest_trading_date get_trade_dates_of now w)))"
proof -
  let ?q = "get_trade_dates_of (Some (strftime (now\<lparr>day := 1\<rparr>)))
              (Some (strftime (now\<lparr>day := 28\<rparr>))) w"
  let ?r = "fst (get_latest_trading_date get_trade_dates_of now w)"
  note cases = get_latest_trading_date_cases [of get_trade_dates_of now w]
  have nonempty: "?r \<noteq> []"
    using cases strftime_nonempty [of now] by auto
  have upto: "?r \<le> strftime now"
    using cases by auto
  have iso: "iso_date ?r"
    if "valid_date now" and "1000 \<le> year now" and "list_all iso_date (answered_dates (fst ?q))"
  proof -
    from cases show ?thesis
    proof
      assume "?r = strftime now"
      with that(1,2) show ?thesis
        by (simp add: strftime_iso_date)
    next
      assume "\<exists>df. fst ?q = Inr (Some df) \<and>
          ?r \<in> set (filter (\<lambda>x. x \<noteq> [] \<and> x \<le> strftime now) (trading_dates (Some df)))"
      then obtain df where "fst ?q = Inr (Some df)" and "?r \<in> set (trading_dates (Some df))"
        by auto
      with that(3) show ?thesis
        by (simp add: answered_dates_def list_all_iff)
    qed
  qed
  show ?thesis
  proof (intro conjI impI)
    show "snd (get_latest_trading_date get_trade_dates_of now w) = snd ?q"
      by (rule get_latest_trading_date_world)
  next
    assume "?q = (Inr (Some df), w') \<and> ''is_trading_day'' \<in> set (columns df) \<and>
        ''calendar_date'' \<in> set (columns df)"
    then show "get_latest_trading_date get_trade_dates_of now w =
        (if filter (\<lambda>x. x \<noteq> [] \<and> x \<le> strftime now) (trading_dates (Some df)) = []
         then strftime now
         else Max (set (filter (\<lambda>x. x \<noteq> [] \<and> x \<le> strftime now)
                          (trading_dates (Some df)))), w')"
      by (intro get_latest_trading_date_found) simp_all
  next
    assume "fst ?q = Inl e"
    then show "?r = strftime now"
      by (rule get_latest_trading_date_raised)
  next
    show "?r \<noteq> []"
      by (rule nonempty)
  next
    show "?r \<le> strftime now"
      by (rule upto)
  next
    assume "valid_date now \<and> 1000 \<le> year now \<and> list_all iso_date (answered_dates (fst ?q))"
    then show "iso_date ?r"
      by (intro iso) simp_all
  qed
qed

lemma eval_2025_01_05: "strftime \<lparr>year = 2025, month = 1, day = 5\<rparr> = ''2025-01-05''"
  by code_simp

lemma eval_2025_01_01: "strftime \<lparr>year = 2025, month = 1, day = 1\<rparr> = ''2025-01-01''"
  by code_simp

lemma eval_2025_01_28: "strftime \<lparr>year = 2025, month = 1, day = 28\<rparr> = ''2025-01-28''"
  by code_simp

lemma sample_upto_2025_01_05:
  "filter (\<lambda>x. x \<noteq> [] \<and> x \<le> ''2025-01-05'') [''2025-01-02'', ''2025-01-03'', ''2025-01-06''] =
     [''2025-01-02'', ''2025-01-03'']"
  by code_simp

lemma sample_dates_iso:
  "list_all iso_date [''2025-01-02'', ''2025-01-03'', ''2025-01-06'']"
  by code_simp

theorem get_latest_trading_date_latest_or_today_witness:
  "get_latest_trading_date (recording_calendar (Inr (Some sample_calendar)))
     \<lparr>year = 2025, month = 1, day = 5\<rparr> [] =
     (''2025-01-03'', [(Some ''2025-01-01'', Some ''2025-01-28'')])
   \<and> iso_date ''2025-01-03''
   \<and> fst (get_latest_trading_date (recording_calendar (Inl connection_lost))
            \<lparr>year = 2025, month = 1, day = 5\<rparr> []) = ''2025-01-05''"
proof -
  let ?now = "\<lparr>year = 2025, month = 1, day = 5\<rparr>"
  let ?cal = "recording_calendar (Inr (Some sample_calendar))"
  let ?w' = "[(Some ''2025-01-01'', Some ''2025-01-28'')]"
  note inst = get_latest_trading_date_latest_or_today
    [where get_trade_dates_of = ?cal and now = ?now and w = "[]" and df = sample_calendar
       and w' = ?w']
  have cols: "''is_trading_day'' \<in> set (columns sample_calendar)"
    "''calendar_date'' \<in> set (columns sample_calendar)"
    by (simp_all add: sample_calendar_def)
  have found: "get_latest_trading_date ?cal ?now [] = (''2025-01-03'', ?w')"
    using inst [THEN conjunct2, THEN conjunct1] cols eval_2025_01_05 eval_2025_01_01
      eval_2025_01_28 sample_trading_dates sample_upto_2025_01_05 sample_max
    by (simp add: recording_calendar_def)
  have "valid_date ?now"
    by (simp add: valid_date_def get_month_end_day_def)
  then have "iso_date (fst (get_latest_trading_date ?cal ?now []))"
    using inst [THEN conjunct2, THEN conjunct2, THEN conjunct2, THEN conjunct2, THEN conjunct2]
      eval_2025_01_01 eval_2025_01_28 sample_trading_dates sample_dates_iso
    by (simp add: recording_calendar_def answered_dates_def)
  with found have iso: "iso_date ''2025-01-03''"
    by simp
  have raised:
    "fst (get_latest_trading_date (recording_calendar (Inl connection_lost)) ?now []) =
       ''2025-01-05''"
    using get_latest_trading_date_latest_or_today
      [where get_trade_dates_of = "recording_calendar (Inl connection_lost)" and now = ?now
         and w = "[]" and e = connection_lost, THEN conjunct2, THEN conjunct2, THEN conjunct1]
      eval_2025_01_05
    by (simp add: recording_calendar_def)
  from found iso raised show ?thesis by simp
qed











lemma sample_codes: "map py_strip (split_comma ''510300, 000000'') = [''510300'', ''000000'']"
  by code_simp


lemma sample_basic_info_missing:
  "get_etf_basic_info (sample_ak held) ''000000'' [''spot''] =
     (Inl (Exn NoDataFoundError (basic_info_not_found_1 @ ''000000'' @ basic_info_not_found_2)),
      [''spot'', ''spot''])"
  by (simp add: get_etf_basic_info_def get_etf_basic_info_try_def reraise_def sample_ak_def
      sample_quotes_def df_column_def df_where_def df_empty_def Let_def)


text \<open>The whole answer for the two sample codes, and the calls made.\<close>

lemma sample_comparison:
  "compare_etfs (get_etf_basic_info (sample_ak no_holdings)) ''510300, 000000'' None [] =
     (report_head @ ''| 510300 | HS300ETF | 4.01 | 0.52% | 1000 |'' @ [CHR 0x0A] @
      ''| 000000'' @ fetch_failed_cells @ report_tail, [''spot'', ''spot''])"
  using sample_codes
  by (simp add: compare_etfs_def compare_etfs_try_def try_except_def sample_basic_info
      sample_basic_info_missing compare_row_def data_row_def failed_row_def cell_or_na_def
      arg_or_def daima_def mingcheng_def zuixinjia_def zhangdiefu_def chengjiaoliang_def)

end
